theory Spec2Isabelle
  imports Main "HOL-Library.Word"
begin

unbundle bit_operations_syntax

section \<open>The Node.js primitives that network.ts relies on\<close>

text \<open>
  A \<^verbatim>\<open>Buffer\<close> is a fixed-length array of bytes.  A JavaScript string is a sequence of
  UTF-16 code units.  JavaScript numbers are modelled as \<open>int\<close>; offsets computed by the
  readers are never negative and are \<open>nat\<close>.
\<close>

type_synonym byte = "8 word"
type_synonym buffer = "byte list"
type_synonym jsstring = "16 word list"

text \<open>
  What a method can throw.  \<open>RangeError x\<close> is the error of the Buffer accessors for an
  offset or a value \<open>x\<close> out of range; \<open>Error msg\<close> is \<^verbatim>\<open>throw new Error(msg)\<close>.
\<close>

datatype error = RangeError int | Error string

text \<open>
  network.ts takes \<^verbatim>\<open>assert\<close> from the module \<^verbatim>\<open>"console"\<close>: it is
  \<^verbatim>\<open>console.assert\<close>, which prints a line on stderr when the condition is false and
  returns.  It never throws.  \<^verbatim>\<open>console.error\<close> prints a line as well.
\<close>

datatype diagnostic =
    Assertion_failed
  | Assertion_failed_data_size int
  | Console_error string
  | Console_error_dump buffer

subsection \<open>Integer accessors\<close>

definition readUInt8 :: "buffer \<Rightarrow> nat \<Rightarrow> error + int" where
  "readUInt8 b off =
     (if off < length b then Inr (uint (b ! off)) else Inl (RangeError (int off)))"

definition readUInt16LE :: "buffer \<Rightarrow> nat \<Rightarrow> error + int" where
  "readUInt16LE b off =
     (if off + 2 \<le> length b
      then Inr (uint (b ! off) + uint (b ! (off + 1)) * 2 ^ 8)
      else Inl (RangeError (int off)))"

definition readUInt32LE :: "buffer \<Rightarrow> nat \<Rightarrow> error + int" where
  "readUInt32LE b off =
     (if off + 4 \<le> length b
      then Inr (uint (b ! off) + uint (b ! (off + 1)) * 2 ^ 8
                + uint (b ! (off + 2)) * 2 ^ 16 + uint (b ! (off + 3)) * 2 ^ 24)
      else Inl (RangeError (int off)))"

text \<open>
  The writers take \<^verbatim>\<open>(value, offset)\<close>, check the value first, then the offset, and
  store the low byte of each shifted value.
\<close>

definition writeUInt8 :: "buffer \<Rightarrow> int \<Rightarrow> int \<Rightarrow> error + buffer" where
  "writeUInt8 b v off =
     (if v < 0 \<or> 255 < v then Inl (RangeError v)
      else if off < 0 \<or> int (length b) \<le> off then Inl (RangeError off)
      else Inr (b[nat off := word_of_int v]))"

definition writeUInt16LE :: "buffer \<Rightarrow> int \<Rightarrow> int \<Rightarrow> error + buffer" where
  "writeUInt16LE b v off =
     (if v < 0 \<or> 65535 < v then Inl (RangeError v)
      else if off < 0 \<or> int (length b) < off + 2 then Inl (RangeError off)
      else Inr (b[nat off := word_of_int v, nat off + 1 := word_of_int (v div 2 ^ 8)]))"

definition writeUInt32LE :: "buffer \<Rightarrow> int \<Rightarrow> int \<Rightarrow> error + buffer" where
  "writeUInt32LE b v off =
     (if v < 0 \<or> 4294967295 < v then Inl (RangeError v)
      else if off < 0 \<or> int (length b) < off + 4 then Inl (RangeError off)
      else Inr (b[nat off := word_of_int v,
                  nat off + 1 := word_of_int (v div 2 ^ 8),
                  nat off + 2 := word_of_int (v div 2 ^ 16),
                  nat off + 3 := word_of_int (v div 2 ^ 24)]))"

subsection \<open>Slices and strings\<close>

text \<open>
  \<^verbatim>\<open>buf.slice(start, end)\<close> with non-negative arguments clamps both to the length of the
  buffer and is empty when \<open>end \<le> start\<close>.  It never throws.
\<close>

definition slice_buf :: "buffer \<Rightarrow> nat \<Rightarrow> nat \<Rightarrow> buffer" where
  "slice_buf b start end = take (end - start) (drop start b)"

definition slice_from :: "buffer \<Rightarrow> nat \<Rightarrow> buffer" where
  "slice_from b start = drop start b"

text \<open>\<^verbatim>\<open>toString("ascii")\<close> clears the high bit of every byte.\<close>

definition toString_ascii :: "buffer \<Rightarrow> jsstring" where
  "toString_ascii b = map (\<lambda>x. ucast (x AND 0x7F)) b"

text \<open>\<^verbatim>\<open>toString("utf16le")\<close> pairs the bytes, low byte first; an odd last byte is dropped.\<close>

fun toString_utf16le :: "buffer \<Rightarrow> jsstring" where
  "toString_utf16le (lo # hi # rest) = (ucast lo + ucast hi * 256) # toString_utf16le rest"
| "toString_utf16le _ = []"

text \<open>
  \<^verbatim>\<open>s.replace(/\0.*$/g, "")\<close>.  Without the flag \<^verbatim>\<open>s\<close> the dot matches no line
  terminator, and without \<^verbatim>\<open>m\<close> the dollar matches at the end of the string only.  The
  expression matches at the leftmost NUL that has no line terminator after it, up to the end
  of the string; that match is removed, and nothing else is.
\<close>

definition isLineTerminator :: "16 word \<Rightarrow> bool" where
  "isLineTerminator c = (c = 0x0A \<or> c = 0x0D \<or> c = 0x2028 \<or> c = 0x2029)"

fun no_line_terminator :: "jsstring \<Rightarrow> bool" where
  "no_line_terminator [] = True"
| "no_line_terminator (c # cs) = (if isLineTerminator c then False else no_line_terminator cs)"

fun replace_nul_tail :: "jsstring \<Rightarrow> jsstring" where
  "replace_nul_tail [] = []"
| "replace_nul_tail (c # cs) =
     (if c = 0 \<and> no_line_terminator cs then [] else c # replace_nul_tail cs)"

text \<open>\<^verbatim>\<open>s.padEnd(n, "\x00")\<close>.\<close>

definition padEnd :: "jsstring \<Rightarrow> nat \<Rightarrow> jsstring" where
  "padEnd s n = s @ replicate (n - length s) 0"

text \<open>
  \<^verbatim>\<open>buf.write(s, offset, "ascii")\<close> stores the low byte of every code unit, as many as fit
  before the end of the buffer; an offset beyond the length is a RangeError.
\<close>

definition write_ascii :: "buffer \<Rightarrow> jsstring \<Rightarrow> nat \<Rightarrow> error + buffer" where
  "write_ascii b s off =
     (if off \<le> length b
      then Inr (take off b @ take (length b - off) (map ucast s) @ drop (off + length s) b)
      else Inl (RangeError (int off)))"

subsection \<open>Methods: the packet's buffer and the console, with exceptions\<close>

record world =
  buffer :: buffer
  console :: "diagnostic list"

type_synonym 'a prog = "world \<Rightarrow> (error + 'a) \<times> world"

definition return :: "'a \<Rightarrow> 'a prog" where
  "return x w = (Inr x, w)"

definition throw :: "error \<Rightarrow> 'a prog" where
  "throw e w = (Inl e, w)"

definition bind_prog :: "'a prog \<Rightarrow> ('a \<Rightarrow> 'b prog) \<Rightarrow> 'b prog" where
  "bind_prog m f w =
     (case m w of (Inl e, w') \<Rightarrow> (Inl e, w') | (Inr x, w') \<Rightarrow> f x w')"

text \<open>A call of a reader on \<^verbatim>\<open>this.buffer\<close>, or on any other value: the world stays.\<close>

definition get :: "(buffer \<Rightarrow> error + 'a) \<Rightarrow> 'a prog" where
  "get f w = (f (buffer w), w)"

definition pure_slice :: "(buffer \<Rightarrow> 'a) \<Rightarrow> 'a prog" where
  "pure_slice f w = (Inr (f (buffer w)), w)"

definition lift :: "error + 'a \<Rightarrow> 'a prog" where
  "lift r w = (r, w)"

text \<open>A call of a writer on \<^verbatim>\<open>this.buffer\<close>: a writer that throws has stored nothing.\<close>

definition put :: "(buffer \<Rightarrow> error + buffer) \<Rightarrow> unit prog" where
  "put f w =
     (case f (buffer w) of Inl e \<Rightarrow> (Inl e, w) | Inr b \<Rightarrow> (Inr (), w\<lparr>buffer := b\<rparr>))"

definition console_assert :: "bool \<Rightarrow> diagnostic \<Rightarrow> unit prog" where
  "console_assert c d w = (Inr (), if c then w else w\<lparr>console := console w @ [d]\<rparr>)"

definition str :: "string \<Rightarrow> jsstring" where
  "str s = map (\<lambda>c. of_nat (of_char c)) s"

section \<open>TCNetManagementHeader\<close>

definition MAJOR_VERSION :: int where
  "MAJOR_VERSION = 3"

definition MAGIC_HEADER :: jsstring where
  "MAGIC_HEADER = str ''TCN''"

record TCNetManagementHeader =
  nodeId :: int
  minorVersion :: int
  messageType :: int
  nodeName :: jsstring
  seq :: int
  nodeType :: int
  nodeOptions :: int
  timestamp :: int

definition TCNetManagementHeader_read :: "TCNetManagementHeader prog" where
  "TCNetManagementHeader_read =
     bind_prog (get (\<lambda>b. readUInt16LE b 0)) (\<lambda>nodeId'.
     bind_prog (get (\<lambda>b. readUInt8 b 2)) (\<lambda>major.
     bind_prog (console_assert (major = MAJOR_VERSION) Assertion_failed) (\<lambda>_.
     bind_prog (get (\<lambda>b. readUInt8 b 3)) (\<lambda>minorVersion'.
     bind_prog (pure_slice (\<lambda>b. toString_ascii (slice_buf b 4 7))) (\<lambda>magic.
     bind_prog (console_assert (magic = MAGIC_HEADER) Assertion_failed) (\<lambda>_.
     bind_prog (get (\<lambda>b. readUInt8 b 7)) (\<lambda>messageType'.
     bind_prog (pure_slice (\<lambda>b. replace_nul_tail (toString_ascii (slice_buf b 8 16)))) (\<lambda>nodeName'.
     bind_prog (get (\<lambda>b. readUInt8 b 16)) (\<lambda>seq'.
     bind_prog (get (\<lambda>b. readUInt8 b 17)) (\<lambda>nodeType'.
     bind_prog (get (\<lambda>b. readUInt16LE b 18)) (\<lambda>nodeOptions'.
     bind_prog (get (\<lambda>b. readUInt32LE b 20)) (\<lambda>timestamp'.
     return \<lparr>nodeId = nodeId', minorVersion = minorVersion', messageType = messageType',
             nodeName = nodeName', seq = seq', nodeType = nodeType',
             nodeOptions = nodeOptions', timestamp = timestamp'\<rparr>))))))))))))"

definition TCNetManagementHeader_write :: "TCNetManagementHeader \<Rightarrow> unit prog" where
  "TCNetManagementHeader_write h =
     bind_prog (console_assert (length (nodeName h) \<le> 8) Assertion_failed) (\<lambda>_.
     bind_prog (put (\<lambda>b. writeUInt16LE b (nodeId h) 0)) (\<lambda>_.
     bind_prog (put (\<lambda>b. writeUInt8 b MAJOR_VERSION 2)) (\<lambda>_.
     bind_prog (put (\<lambda>b. writeUInt8 b (minorVersion h) 3)) (\<lambda>_.
     bind_prog (put (\<lambda>b. write_ascii b MAGIC_HEADER 4)) (\<lambda>_.
     bind_prog (put (\<lambda>b. writeUInt8 b (messageType h) 7)) (\<lambda>_.
     bind_prog (put (\<lambda>b. write_ascii b (padEnd (nodeName h) 8) 8)) (\<lambda>_.
     bind_prog (put (\<lambda>b. writeUInt8 b (seq h) 16)) (\<lambda>_.
     bind_prog (put (\<lambda>b. writeUInt8 b (nodeType h) 17)) (\<lambda>_.
     bind_prog (put (\<lambda>b. writeUInt16LE b (nodeOptions h) 18)) (\<lambda>_.
     put (\<lambda>b. writeUInt32LE b (timestamp h) 20)))))))))))"

text \<open>A \<^verbatim>\<open>for (let n = 0; n < k; n++)\<close> loop that stores one value per round.\<close>

fun for_each :: "nat list \<Rightarrow> (nat \<Rightarrow> 'a prog) \<Rightarrow> 'a list prog" where
  "for_each [] f = return []"
| "for_each (n # ns) f =
     bind_prog (f n) (\<lambda>x. bind_prog (for_each ns f) (\<lambda>xs. return (x # xs)))"

section \<open>TCNetOptInPacket\<close>

record TCNetOptInPacket =
  nodeCount :: int
  nodeListenerPort :: int
  uptime :: int
  vendorName :: jsstring
  appName :: jsstring
  majorVersion :: int
  minorVersion :: int
  bugVersion :: int

definition TCNetOptInPacket_read :: "TCNetOptInPacket prog" where
  "TCNetOptInPacket_read =
     bind_prog (get (\<lambda>b. readUInt16LE b 24)) (\<lambda>nodeCount'.
     bind_prog (get (\<lambda>b. readUInt16LE b 26)) (\<lambda>nodeListenerPort'.
     bind_prog (get (\<lambda>b. readUInt16LE b 28)) (\<lambda>uptime'.
     bind_prog (pure_slice (\<lambda>b. replace_nul_tail (toString_ascii (slice_buf b 32 48)))) (\<lambda>vendorName'.
     bind_prog (pure_slice (\<lambda>b. replace_nul_tail (toString_ascii (slice_buf b 48 64)))) (\<lambda>appName'.
     bind_prog (get (\<lambda>b. readUInt8 b 64)) (\<lambda>majorVersion'.
     bind_prog (get (\<lambda>b. readUInt8 b 65)) (\<lambda>minorVersion'.
     bind_prog (get (\<lambda>b. readUInt8 b 66)) (\<lambda>bugVersion'.
     return \<lparr>TCNetOptInPacket.nodeCount = nodeCount',
             TCNetOptInPacket.nodeListenerPort = nodeListenerPort',
             uptime = uptime', vendorName = vendorName', appName = appName',
             majorVersion = majorVersion', TCNetOptInPacket.minorVersion = minorVersion',
             bugVersion = bugVersion'\<rparr>))))))))"

text \<open>
  The last three calls are \<^verbatim>\<open>writeUInt8(64, this.majorVersion)\<close>,
  \<^verbatim>\<open>writeUInt8(65, this.minorVersion)\<close> and \<^verbatim>\<open>writeUInt8(66, this.bugVersion)\<close>: the
  first argument of \<^verbatim>\<open>writeUInt8\<close> is the value and the second the offset.
\<close>

definition TCNetOptInPacket_write :: "TCNetOptInPacket \<Rightarrow> unit prog" where
  "TCNetOptInPacket_write p =
     bind_prog (console_assert (length (vendorName p) \<le> 16) Assertion_failed) (\<lambda>_.
     bind_prog (console_assert (length (appName p) \<le> 16) Assertion_failed) (\<lambda>_.
     bind_prog (put (\<lambda>b. writeUInt16LE b (TCNetOptInPacket.nodeCount p) 24)) (\<lambda>_.
     bind_prog (put (\<lambda>b. writeUInt16LE b (TCNetOptInPacket.nodeListenerPort p) 26)) (\<lambda>_.
     bind_prog (put (\<lambda>b. writeUInt16LE b (uptime p) 28)) (\<lambda>_.
     bind_prog (put (\<lambda>b. write_ascii b (padEnd (vendorName p) 16) 32)) (\<lambda>_.
     bind_prog (put (\<lambda>b. write_ascii b (padEnd (appName p) 16) 48)) (\<lambda>_.
     bind_prog (put (\<lambda>b. writeUInt8 b 64 (majorVersion p))) (\<lambda>_.
     bind_prog (put (\<lambda>b. writeUInt8 b 65 (TCNetOptInPacket.minorVersion p))) (\<lambda>_.
     put (\<lambda>b. writeUInt8 b 66 (bugVersion p)))))))))))"

section \<open>TCNetOptOutPacket\<close>

record TCNetOptOutPacket =
  nodeCount :: int
  nodeListenerPort :: int

definition TCNetOptOutPacket_read :: "TCNetOptOutPacket prog" where
  "TCNetOptOutPacket_read =
     bind_prog (get (\<lambda>b. readUInt16LE b 24)) (\<lambda>nodeCount'.
     bind_prog (get (\<lambda>b. readUInt16LE b 26)) (\<lambda>nodeListenerPort'.
     return \<lparr>TCNetOptOutPacket.nodeCount = nodeCount',
             TCNetOptOutPacket.nodeListenerPort = nodeListenerPort'\<rparr>))"

definition TCNetOptOutPacket_write :: "TCNetOptOutPacket \<Rightarrow> unit prog" where
  "TCNetOptOutPacket_write p =
     bind_prog (put (\<lambda>b. writeUInt16LE b (TCNetOptOutPacket.nodeCount p) 24)) (\<lambda>_.
     put (\<lambda>b. writeUInt16LE b (TCNetOptOutPacket.nodeListenerPort p) 26))"

section \<open>TCNetStatusPacket\<close>

record TCNetStatusPacket =
  nodeCount :: int
  nodeListenerPort :: int
  layerSource :: "int list"
  layerStatus :: "int list"
  trackID :: "int list"
  smpteMode :: int
  autoMasterMode :: int
  layerName :: "jsstring list"

definition TCNetStatusPacket_read :: "TCNetStatusPacket prog" where
  "TCNetStatusPacket_read =
     bind_prog (get (\<lambda>b. readUInt16LE b 24)) (\<lambda>nodeCount'.
     bind_prog (get (\<lambda>b. readUInt16LE b 26)) (\<lambda>nodeListenerPort'.
     bind_prog (for_each [0..<8] (\<lambda>n. get (\<lambda>b. readUInt8 b (34 + n)))) (\<lambda>layerSource'.
     bind_prog (for_each [0..<8] (\<lambda>n. get (\<lambda>b. readUInt8 b (42 + n)))) (\<lambda>layerStatus'.
     bind_prog (for_each [0..<8] (\<lambda>n. get (\<lambda>b. readUInt32LE b (50 + n * 4)))) (\<lambda>trackID'.
     bind_prog (get (\<lambda>b. readUInt8 b 83)) (\<lambda>smpteMode'.
     bind_prog (get (\<lambda>b. readUInt8 b 84)) (\<lambda>autoMasterMode'.
     bind_prog (for_each [0..<8] (\<lambda>n. pure_slice (\<lambda>b.
         replace_nul_tail (toString_ascii (slice_buf b (172 + n * 16) (172 + (n + 1) * 16))))))
       (\<lambda>layerName'.
     return \<lparr>TCNetStatusPacket.nodeCount = nodeCount',
             TCNetStatusPacket.nodeListenerPort = nodeListenerPort',
             layerSource = layerSource', layerStatus = layerStatus',
             TCNetStatusPacket.trackID = trackID', smpteMode = smpteMode',
             autoMasterMode = autoMasterMode', layerName = layerName'\<rparr>))))))))"

text \<open>\<^verbatim>\<open>throw new Error("not supported!")\<close>, the body of every \<^verbatim>\<open>write\<close> below but two.\<close>

definition not_supported :: "unit prog" where
  "not_supported = throw (Error ''not supported!'')"

definition TCNetStatusPacket_write :: "TCNetStatusPacket \<Rightarrow> unit prog" where
  "TCNetStatusPacket_write p = not_supported"

section \<open>TCNetRequestPacket\<close>

record TCNetRequestPacket =
  dataType :: int
  layer :: int

definition TCNetRequestPacket_read :: "TCNetRequestPacket prog" where
  "TCNetRequestPacket_read =
     bind_prog (get (\<lambda>b. readUInt8 b 24)) (\<lambda>dataType'.
     bind_prog (get (\<lambda>b. readUInt8 b 25)) (\<lambda>layer'.
     return \<lparr>TCNetRequestPacket.dataType = dataType', TCNetRequestPacket.layer = layer'\<rparr>))"

definition TCNetRequestPacket_write :: "TCNetRequestPacket \<Rightarrow> unit prog" where
  "TCNetRequestPacket_write p =
     bind_prog (console_assert (0 \<le> TCNetRequestPacket.dataType p \<and> TCNetRequestPacket.dataType p \<le> 255)
                  Assertion_failed) (\<lambda>_.
     bind_prog (console_assert (0 \<le> TCNetRequestPacket.layer p \<and> TCNetRequestPacket.layer p \<le> 255)
                  Assertion_failed) (\<lambda>_.
     bind_prog (put (\<lambda>b. writeUInt8 b (TCNetRequestPacket.dataType p) 24)) (\<lambda>_.
     put (\<lambda>b. writeUInt8 b (TCNetRequestPacket.layer p) 25))))"

section \<open>TCNetTimecode and TCNetTimePacket\<close>

definition this_buffer :: "buffer prog" where
  "this_buffer w = (Inr (buffer w), w)"

record TCNetTimecode =
  mode :: int
  state :: int
  hours :: int
  minutes :: int
  seconds :: int
  frames :: int

definition TCNetTimecode_read :: "buffer \<Rightarrow> nat \<Rightarrow> TCNetTimecode prog" where
  "TCNetTimecode_read buf offset =
     bind_prog (lift (readUInt8 buf (offset + 0))) (\<lambda>mode'.
     bind_prog (lift (readUInt8 buf (offset + 1))) (\<lambda>state'.
     bind_prog (lift (readUInt8 buf (offset + 2))) (\<lambda>hours'.
     bind_prog (lift (readUInt8 buf (offset + 3))) (\<lambda>minutes'.
     bind_prog (lift (readUInt8 buf (offset + 4))) (\<lambda>seconds'.
     bind_prog (lift (readUInt8 buf (offset + 5))) (\<lambda>frames'.
     return \<lparr>mode = mode', TCNetTimecode.state = state', hours = hours', minutes = minutes',
             seconds = seconds', frames = frames'\<rparr>))))))"

record TCNetTimePacket =
  layerCurrentTime :: "int list"
  layerTotalTime :: "int list"
  layerBeatmarker :: "int list"
  layerState :: "int list"
  generalSMPTEMode :: int
  layerTimecode :: "TCNetTimecode list"

text \<open>One round of the loop of \<^verbatim>\<open>TCNetTimePacket.read\<close> stores five values.\<close>

definition TCNetTimePacket_read :: "TCNetTimePacket prog" where
  "TCNetTimePacket_read =
     bind_prog (for_each [0..<8] (\<lambda>n.
         bind_prog (get (\<lambda>b. readUInt32LE b (24 + n * 4))) (\<lambda>cur.
         bind_prog (get (\<lambda>b. readUInt32LE b (56 + n * 4))) (\<lambda>tot.
         bind_prog (get (\<lambda>b. readUInt8 b (88 + n))) (\<lambda>beat.
         bind_prog (get (\<lambda>b. readUInt8 b (96 + n))) (\<lambda>st.
         bind_prog (bind_prog this_buffer (\<lambda>b. TCNetTimecode_read b (106 + n * 6))) (\<lambda>tc.
         return (cur, tot, beat, st, tc)))))))) (\<lambda>rounds.
     bind_prog (get (\<lambda>b. readUInt8 b 105)) (\<lambda>generalSMPTEMode'.
     return \<lparr>layerCurrentTime = map (\<lambda>(cur, tot, beat, st, tc). cur) rounds,
             layerTotalTime = map (\<lambda>(cur, tot, beat, st, tc). tot) rounds,
             layerBeatmarker = map (\<lambda>(cur, tot, beat, st, tc). beat) rounds,
             layerState = map (\<lambda>(cur, tot, beat, st, tc). st) rounds,
             generalSMPTEMode = generalSMPTEMode',
             layerTimecode = map (\<lambda>(cur, tot, beat, st, tc). tc) rounds\<rparr>))"

definition TCNetTimePacket_write :: "TCNetTimePacket \<Rightarrow> unit prog" where
  "TCNetTimePacket_write p = not_supported"

section \<open>TCNetDataPacket and its subclasses\<close>

record TCNetDataPacket =
  dataType :: int
  layer :: int

definition TCNetDataPacket_read :: "TCNetDataPacket prog" where
  "TCNetDataPacket_read =
     bind_prog (get (\<lambda>b. readUInt8 b 24)) (\<lambda>dataType'.
     bind_prog (get (\<lambda>b. readUInt8 b 25)) (\<lambda>layer'.
     return \<lparr>TCNetDataPacket.dataType = dataType', TCNetDataPacket.layer = layer'\<rparr>))"

definition TCNetDataPacket_write :: "TCNetDataPacket \<Rightarrow> unit prog" where
  "TCNetDataPacket_write p =
     bind_prog (console_assert (0 \<le> TCNetDataPacket.dataType p \<and> TCNetDataPacket.dataType p \<le> 255)
                  Assertion_failed) (\<lambda>_.
     bind_prog (console_assert (0 \<le> TCNetDataPacket.layer p \<and> TCNetDataPacket.layer p \<le> 255)
                  Assertion_failed) (\<lambda>_.
     bind_prog (put (\<lambda>b. writeUInt8 b (TCNetDataPacket.dataType p) 24)) (\<lambda>_.
     put (\<lambda>b. writeUInt8 b (TCNetDataPacket.layer p) 25))))"

record TCNetDataPacketMetrics =
  state :: int
  syncMaster :: int
  beatMarker :: int
  trackLength :: int
  currentPosition :: int
  speed :: int
  beatNumber :: int
  bpm :: int
  pitchBend :: int
  trackID :: int

definition TCNetDataPacketMetrics_read :: "TCNetDataPacketMetrics prog" where
  "TCNetDataPacketMetrics_read =
     bind_prog (get (\<lambda>b. readUInt8 b 27)) (\<lambda>state'.
     bind_prog (get (\<lambda>b. readUInt8 b 29)) (\<lambda>syncMaster'.
     bind_prog (get (\<lambda>b. readUInt8 b 31)) (\<lambda>beatMarker'.
     bind_prog (get (\<lambda>b. readUInt32LE b 32)) (\<lambda>trackLength'.
     bind_prog (get (\<lambda>b. readUInt32LE b 36)) (\<lambda>currentPosition'.
     bind_prog (get (\<lambda>b. readUInt32LE b 40)) (\<lambda>speed'.
     bind_prog (get (\<lambda>b. readUInt32LE b 57)) (\<lambda>beatNumber'.
     bind_prog (get (\<lambda>b. readUInt32LE b 112)) (\<lambda>bpm'.
     bind_prog (get (\<lambda>b. readUInt16LE b 116)) (\<lambda>pitchBend'.
     bind_prog (get (\<lambda>b. readUInt32LE b 118)) (\<lambda>trackID'.
     return \<lparr>TCNetDataPacketMetrics.state = state', syncMaster = syncMaster',
             beatMarker = beatMarker', trackLength = trackLength',
             currentPosition = currentPosition', speed = speed', beatNumber = beatNumber',
             bpm = bpm', pitchBend = pitchBend',
             TCNetDataPacketMetrics.trackID = trackID'\<rparr>))))))))))"

definition TCNetDataPacketMetrics_write :: "TCNetDataPacketMetrics \<Rightarrow> unit prog" where
  "TCNetDataPacketMetrics_write p = not_supported"

record TCNetDataPacketMetadata =
  trackArtist :: jsstring
  trackTitle :: jsstring
  trackKey :: int
  trackID :: int

definition TCNetDataPacketMetadata_read :: "TCNetDataPacketMetadata prog" where
  "TCNetDataPacketMetadata_read =
     bind_prog (pure_slice (\<lambda>b. replace_nul_tail (toString_utf16le (slice_buf b 29 285)))) (\<lambda>trackArtist'.
     bind_prog (pure_slice (\<lambda>b. replace_nul_tail (toString_utf16le (slice_buf b 285 541)))) (\<lambda>trackTitle'.
     bind_prog (get (\<lambda>b. readUInt16LE b 541)) (\<lambda>trackKey'.
     bind_prog (get (\<lambda>b. readUInt32LE b 543)) (\<lambda>trackID'.
     return \<lparr>trackArtist = trackArtist', trackTitle = trackTitle', trackKey = trackKey',
             TCNetDataPacketMetadata.trackID = trackID'\<rparr>))))"

definition TCNetDataPacketMetadata_write :: "TCNetDataPacketMetadata \<Rightarrow> unit prog" where
  "TCNetDataPacketMetadata_write p = not_supported"

record MixerChannelData =
  channelSourceSelect :: int
  channelAudioLevel :: int
  channelFaderLevel :: int
  channelTrimLevel :: int
  channelCompLevel :: int
  channelEqHiLevel :: int
  channelEqHiMidLevel :: int
  channelEqLowMidLevel :: int
  channelEqLowLevel :: int
  channelFilterColor :: int
  channelSend :: int
  channelCueA :: bool
  channelCueB :: bool
  channelCrossfaderAssign :: int

definition MixerChannelData_parse :: "buffer \<Rightarrow> nat \<Rightarrow> MixerChannelData prog" where
  "MixerChannelData_parse buf offset =
     bind_prog (lift (readUInt8 buf offset)) (\<lambda>channelSourceSelect'.
     bind_prog (lift (readUInt8 buf (offset + 1))) (\<lambda>channelAudioLevel'.
     bind_prog (lift (readUInt8 buf (offset + 2))) (\<lambda>channelFaderLevel'.
     bind_prog (lift (readUInt8 buf (offset + 3))) (\<lambda>channelTrimLevel'.
     bind_prog (lift (readUInt8 buf (offset + 4))) (\<lambda>channelCompLevel'.
     bind_prog (lift (readUInt8 buf (offset + 5))) (\<lambda>channelEqHiLevel'.
     bind_prog (lift (readUInt8 buf (offset + 6))) (\<lambda>channelEqHiMidLevel'.
     bind_prog (lift (readUInt8 buf (offset + 7))) (\<lambda>channelEqLowMidLevel'.
     bind_prog (lift (readUInt8 buf (offset + 8))) (\<lambda>channelEqLowLevel'.
     bind_prog (lift (readUInt8 buf (offset + 9))) (\<lambda>channelFilterColor'.
     bind_prog (lift (readUInt8 buf (offset + 10))) (\<lambda>channelSend'.
     bind_prog (lift (readUInt8 buf (offset + 11))) (\<lambda>channelCueA'.
     bind_prog (lift (readUInt8 buf (offset + 12))) (\<lambda>channelCueB'.
     bind_prog (lift (readUInt8 buf (offset + 13))) (\<lambda>channelCrossfaderAssign'.
     return \<lparr>channelSourceSelect = channelSourceSelect',
             channelAudioLevel = channelAudioLevel',
             channelFaderLevel = channelFaderLevel',
             channelTrimLevel = channelTrimLevel', channelCompLevel = channelCompLevel',
             channelEqHiLevel = channelEqHiLevel',
             channelEqHiMidLevel = channelEqHiMidLevel',
             channelEqLowMidLevel = channelEqLowMidLevel',
             channelEqLowLevel = channelEqLowLevel',
             channelFilterColor = channelFilterColor', channelSend = channelSend',
             channelCueA = channelCueA' = 1, channelCueB = channelCueB' = 1,
             channelCrossfaderAssign = channelCrossfaderAssign'\<rparr>))))))))))))))"

record TCNetDataPacketMixerData =
  mixerID :: int
  mixerType :: int
  mixerName :: jsstring
  micEqHi :: int
  micEqLow :: int
  masterAudioLevel :: int
  masterFaderLevel :: int
  linkCueA :: bool
  linkCueB :: bool
  masterFilter :: int
  masterCueA :: bool
  masterCueB :: bool
  masterIsolatorOnOff :: bool
  masterIsolatorHi :: int
  masterIsolatorMid :: int
  masterIsolatorLow :: int
  filterHpf :: int
  filterLpf :: int
  filterResonance :: int
  sendFxEffect :: int
  sendFxExt1 :: bool
  sendFxExt2 :: bool
  sendFxMasterMix :: int
  sendFxSizeFeedback :: int
  sendFxTime :: int
  sendFxHPF :: int
  sendFXLevel :: int
  sendReturn3SourceSelect :: int
  sendReturn3Type :: int
  sendReturn3OnOff :: bool
  sendReturn3Level :: int
  channelFaderCurve :: int
  crossFaderCurve :: int
  crossFader :: int
  beatFXOnOff :: bool
  beatFXLevelDepth :: int
  beatFXChannelSelect :: int
  beatFXSelect :: int
  beatFXFreqHi :: int
  beatFXFreqMid :: int
  beatFXFreqLow :: int
  headphonesPreEQ :: bool
  headphonesALevel :: int
  headphonesAMix :: int
  headphonesBLevel :: int
  headphonesBMix :: int
  boothLevel :: int
  boothEQHi :: int
  boothEQLow :: int
  channelData :: "MixerChannelData list"

text \<open>
  \<^verbatim>\<open>mixerName\<close> is the only fixed-width string field read without the \<^verbatim>\<open>replace\<close>.
  The reads are grouped as the blocks of \<^verbatim>\<open>read\<close> are, in the order of the source.
\<close>

definition TCNetDataPacketMixerData_read :: "TCNetDataPacketMixerData prog" where
  "TCNetDataPacketMixerData_read =
     bind_prog
       (bind_prog (get (\<lambda>b. readUInt8 b 25)) (\<lambda>mixerID'.
        bind_prog (get (\<lambda>b. readUInt8 b 26)) (\<lambda>mixerType'.
        return (mixerID', mixerType'))))
       (\<lambda>(mixerID', mixerType').
     bind_prog (pure_slice (\<lambda>b. toString_ascii (slice_buf b 29 (29 + 16)))) (\<lambda>mixerName'.
     bind_prog
       (bind_prog (get (\<lambda>b. readUInt8 b 59)) (\<lambda>micEqHi'.
        bind_prog (get (\<lambda>b. readUInt8 b 60)) (\<lambda>micEqLow'.
        bind_prog (get (\<lambda>b. readUInt8 b 61)) (\<lambda>masterAudioLevel'.
        bind_prog (get (\<lambda>b. readUInt8 b 62)) (\<lambda>masterFaderLevel'.
        return (micEqHi', micEqLow', masterAudioLevel', masterFaderLevel'))))))
       (\<lambda>(micEqHi', micEqLow', masterAudioLevel', masterFaderLevel').
     bind_prog
       (bind_prog (get (\<lambda>b. readUInt8 b 67)) (\<lambda>linkCueA'.
        bind_prog (get (\<lambda>b. readUInt8 b 68)) (\<lambda>linkCueB'.
        bind_prog (get (\<lambda>b. readUInt8 b 69)) (\<lambda>masterFilter'.
        return (linkCueA', linkCueB', masterFilter')))))
       (\<lambda>(linkCueA', linkCueB', masterFilter').
     bind_prog
       (bind_prog (get (\<lambda>b. readUInt8 b 71)) (\<lambda>masterCueA'.
        bind_prog (get (\<lambda>b. readUInt8 b 72)) (\<lambda>masterCueB'.
        return (masterCueA', masterCueB'))))
       (\<lambda>(masterCueA', masterCueB').
     bind_prog
       (bind_prog (get (\<lambda>b. readUInt8 b 74)) (\<lambda>masterIsolatorOnOff'.
        bind_prog (get (\<lambda>b. readUInt8 b 75)) (\<lambda>masterIsolatorHi'.
        bind_prog (get (\<lambda>b. readUInt8 b 76)) (\<lambda>masterIsolatorMid'.
        bind_prog (get (\<lambda>b. readUInt8 b 77)) (\<lambda>masterIsolatorLow'.
        return (masterIsolatorOnOff', masterIsolatorHi', masterIsolatorMid',
                masterIsolatorLow'))))))
       (\<lambda>(masterIsolatorOnOff', masterIsolatorHi', masterIsolatorMid',
          masterIsolatorLow').
     bind_prog
       (bind_prog (get (\<lambda>b. readUInt8 b 79)) (\<lambda>filterHpf'.
        bind_prog (get (\<lambda>b. readUInt8 b 80)) (\<lambda>filterLpf'.
        bind_prog (get (\<lambda>b. readUInt8 b 81)) (\<lambda>filterResonance'.
        return (filterHpf', filterLpf', filterResonance')))))
       (\<lambda>(filterHpf', filterLpf', filterResonance').
     bind_prog
       (bind_prog (get (\<lambda>b. readUInt8 b 84)) (\<lambda>sendFxEffect'.
        bind_prog (get (\<lambda>b. readUInt8 b 85)) (\<lambda>sendFxExt1'.
        bind_prog (get (\<lambda>b. readUInt8 b 86)) (\<lambda>sendFxExt2'.
        bind_prog (get (\<lambda>b. readUInt8 b 87)) (\<lambda>sendFxMasterMix'.
        bind_prog (get (\<lambda>b. readUInt8 b 88)) (\<lambda>sendFxSizeFeedback'.
        bind_prog (get (\<lambda>b. readUInt8 b 89)) (\<lambda>sendFxTime'.
        bind_prog (get (\<lambda>b. readUInt8 b 90)) (\<lambda>sendFxHPF'.
        bind_prog (get (\<lambda>b. readUInt8 b 91)) (\<lambda>sendFXLevel'.
        bind_prog (get (\<lambda>b. readUInt8 b 92)) (\<lambda>sendReturn3SourceSelect'.
        bind_prog (get (\<lambda>b. readUInt8 b 93)) (\<lambda>sendReturn3Type'.
        bind_prog (get (\<lambda>b. readUInt8 b 94)) (\<lambda>sendReturn3OnOff'.
        bind_prog (get (\<lambda>b. readUInt8 b 95)) (\<lambda>sendReturn3Level'.
        return (sendFxEffect', sendFxExt1', sendFxExt2', sendFxMasterMix',
                sendFxSizeFeedback', sendFxTime', sendFxHPF', sendFXLevel',
                sendReturn3SourceSelect', sendReturn3Type', sendReturn3OnOff',
                sendReturn3Level'))))))))))))))
       (\<lambda>(sendFxEffect', sendFxExt1', sendFxExt2', sendFxMasterMix',
          sendFxSizeFeedback', sendFxTime', sendFxHPF', sendFXLevel',
          sendReturn3SourceSelect', sendReturn3Type', sendReturn3OnOff',
          sendReturn3Level').
     bind_prog
       (bind_prog (get (\<lambda>b. readUInt8 b 97)) (\<lambda>channelFaderCurve'.
        bind_prog (get (\<lambda>b. readUInt8 b 98)) (\<lambda>crossFaderCurve'.
        bind_prog (get (\<lambda>b. readUInt8 b 99)) (\<lambda>crossFader'.
        bind_prog (get (\<lambda>b. readUInt8 b 100)) (\<lambda>beatFXOnOff'.
        bind_prog (get (\<lambda>b. readUInt8 b 101)) (\<lambda>beatFXLevelDepth'.
        bind_prog (get (\<lambda>b. readUInt8 b 102)) (\<lambda>beatFXChannelSelect'.
        bind_prog (get (\<lambda>b. readUInt8 b 103)) (\<lambda>beatFXSelect'.
        bind_prog (get (\<lambda>b. readUInt8 b 104)) (\<lambda>beatFXFreqHi'.
        bind_prog (get (\<lambda>b. readUInt8 b 105)) (\<lambda>beatFXFreqMid'.
        bind_prog (get (\<lambda>b. readUInt8 b 106)) (\<lambda>beatFXFreqLow'.
        bind_prog (get (\<lambda>b. readUInt8 b 107)) (\<lambda>headphonesPreEQ'.
        bind_prog (get (\<lambda>b. readUInt8 b 108)) (\<lambda>headphonesALevel'.
        bind_prog (get (\<lambda>b. readUInt8 b 109)) (\<lambda>headphonesAMix'.
        bind_prog (get (\<lambda>b. readUInt8 b 110)) (\<lambda>headphonesBLevel'.
        bind_prog (get (\<lambda>b. readUInt8 b 111)) (\<lambda>headphonesBMix'.
        bind_prog (get (\<lambda>b. readUInt8 b 112)) (\<lambda>boothLevel'.
        bind_prog (get (\<lambda>b. readUInt8 b 113)) (\<lambda>boothEQHi'.
        bind_prog (get (\<lambda>b. readUInt8 b 114)) (\<lambda>boothEQLow'.
        return (channelFaderCurve', crossFaderCurve', crossFader', beatFXOnOff',
                beatFXLevelDepth', beatFXChannelSelect', beatFXSelect', beatFXFreqHi',
                beatFXFreqMid', beatFXFreqLow', headphonesPreEQ', headphonesALevel',
                headphonesAMix', headphonesBLevel', headphonesBMix', boothLevel',
                boothEQHi', boothEQLow'))))))))))))))))))))
       (\<lambda>(channelFaderCurve', crossFaderCurve', crossFader', beatFXOnOff',
          beatFXLevelDepth', beatFXChannelSelect', beatFXSelect', beatFXFreqHi',
          beatFXFreqMid', beatFXFreqLow', headphonesPreEQ', headphonesALevel',
          headphonesAMix', headphonesBLevel', headphonesBMix', boothLevel',
          boothEQHi', boothEQLow').
     bind_prog (for_each [0..<6] (\<lambda>i. bind_prog this_buffer (\<lambda>b.
           MixerChannelData_parse b (125 + i * 24)))) (\<lambda>channelData'.
     return \<lparr>mixerID = mixerID', mixerType = mixerType', mixerName = mixerName',
             micEqHi = micEqHi', micEqLow = micEqLow',
             masterAudioLevel = masterAudioLevel', masterFaderLevel = masterFaderLevel',
             linkCueA = linkCueA' = 1, linkCueB = linkCueB' = 1,
             masterFilter = masterFilter', masterCueA = masterCueA' = 1,
             masterCueB = masterCueB' = 1, masterIsolatorOnOff = masterIsolatorOnOff' = 1,
             masterIsolatorHi = masterIsolatorHi', masterIsolatorMid = masterIsolatorMid',
             masterIsolatorLow = masterIsolatorLow', filterHpf = filterHpf',
             filterLpf = filterLpf', filterResonance = filterResonance',
             sendFxEffect = sendFxEffect', sendFxExt1 = sendFxExt1' = 1,
             sendFxExt2 = sendFxExt2' = 1, sendFxMasterMix = sendFxMasterMix',
             sendFxSizeFeedback = sendFxSizeFeedback', sendFxTime = sendFxTime',
             sendFxHPF = sendFxHPF', sendFXLevel = sendFXLevel',
             sendReturn3SourceSelect = sendReturn3SourceSelect',
             sendReturn3Type = sendReturn3Type', sendReturn3OnOff = sendReturn3OnOff' = 1,
             sendReturn3Level = sendReturn3Level', channelFaderCurve = channelFaderCurve',
             crossFaderCurve = crossFaderCurve', crossFader = crossFader',
             beatFXOnOff = beatFXOnOff' = 1, beatFXLevelDepth = beatFXLevelDepth',
             beatFXChannelSelect = beatFXChannelSelect', beatFXSelect = beatFXSelect',
             beatFXFreqHi = beatFXFreqHi', beatFXFreqMid = beatFXFreqMid',
             beatFXFreqLow = beatFXFreqLow', headphonesPreEQ = headphonesPreEQ' = 1,
             headphonesALevel = headphonesALevel', headphonesAMix = headphonesAMix',
             headphonesBLevel = headphonesBLevel', headphonesBMix = headphonesBMix',
             boothLevel = boothLevel', boothEQHi = boothEQHi', boothEQLow = boothEQLow',
             channelData = channelData'\<rparr>))))))))))"

definition TCNetDataPacketMixerData_write :: "TCNetDataPacketMixerData \<Rightarrow> unit prog" where
  "TCNetDataPacketMixerData_write p = not_supported"

record TCNetDataPacketBeatGridData =
  layerID :: int
  dataSize :: int
  totalPacket :: int
  packetNumber :: int
  dataClusterSize :: int
  beatNumber :: int

definition console_error :: "diagnostic \<Rightarrow> unit prog" where
  "console_error d w = (Inr (), w\<lparr>console := console w @ [d]\<rparr>)"

definition TCNetDataPacketBeatGridData_read :: "TCNetDataPacketBeatGridData prog" where
  "TCNetDataPacketBeatGridData_read =
     bind_prog (console_error (Console_error
       ''[note] You have hit a TCNet Data Packet - Beat Grid Data (spec. pg 17), this specification is ambiguous.'')) (\<lambda>_.
     bind_prog (console_error (Console_error
       ''[note]   Please open an issue at https://github.com/UStAEnts/node-tcnet/issues/new and copy the following data verbatim'')) (\<lambda>_.
     bind_prog (bind_prog this_buffer (\<lambda>b. console_error (Console_error_dump b))) (\<lambda>_.
     throw (Error ''not yet implemented - ambiguous data definition in the specification see notes on stderr''))))"

record CueColor =
  red :: int
  green :: int
  blue :: int

definition CueColor_asserts :: "CueColor \<Rightarrow> CueColor prog" where
  "CueColor_asserts c =
     bind_prog (console_assert (red c \<ge> 0 \<and> red c \<le> 255) Assertion_failed) (\<lambda>_.
     bind_prog (console_assert (green c \<ge> 0 \<and> green c \<le> 255) Assertion_failed) (\<lambda>_.
     bind_prog (console_assert (blue c \<ge> 0 \<and> blue c \<le> 255) Assertion_failed) (\<lambda>_.
     return c)))"

definition CueColor_of_numbers :: "int \<Rightarrow> int \<Rightarrow> int \<Rightarrow> CueColor prog" where
  "CueColor_of_numbers r g b = CueColor_asserts \<lparr>red = r, green = g, blue = b\<rparr>"

definition CueColor_of_buffer :: "buffer \<Rightarrow> CueColor prog" where
  "CueColor_of_buffer buf =
     bind_prog (lift (readUInt8 buf 0)) (\<lambda>red'.
     bind_prog (lift (readUInt8 buf 1)) (\<lambda>green'.
     bind_prog (lift (readUInt8 buf 2)) (\<lambda>blue'.
     CueColor_asserts \<lparr>red = red', green = green', blue = blue'\<rparr>)))"

record CueData =
  cueType :: int
  inTime :: int
  outTime :: int
  color :: CueColor

definition CueData_parse :: "buffer \<Rightarrow> nat \<Rightarrow> CueData prog" where
  "CueData_parse buf offset =
     bind_prog (lift (readUInt8 buf offset)) (\<lambda>cueType'.
     bind_prog (lift (readUInt32LE buf (offset + 2))) (\<lambda>inTime'.
     bind_prog (lift (readUInt32LE buf (offset + 6))) (\<lambda>outTime'.
     bind_prog (CueColor_of_buffer (slice_from buf (offset + 11))) (\<lambda>color'.
     return \<lparr>cueType = cueType', inTime = inTime', outTime = outTime',
             CueData.color = color'\<rparr>))))"

record TCNetDataPacketCueData =
  layerID :: int
  loopIn :: int
  loopOut :: int
  cues :: "CueData list"

definition TCNetDataPacketCueData_read :: "TCNetDataPacketCueData prog" where
  "TCNetDataPacketCueData_read =
     bind_prog (get (\<lambda>b. readUInt8 b 25)) (\<lambda>layerID'.
     bind_prog (get (\<lambda>b. readUInt32LE b 42)) (\<lambda>loopIn'.
     bind_prog (get (\<lambda>b. readUInt32LE b 46)) (\<lambda>loopOut'.
     bind_prog (for_each [0..<18] (\<lambda>i. bind_prog this_buffer (\<lambda>b.
         CueData_parse b (47 + i * 22)))) (\<lambda>cues'.
     return \<lparr>TCNetDataPacketCueData.layerID = layerID', loopIn = loopIn', loopOut = loopOut',
             cues = cues'\<rparr>))))"

text \<open>
  The elements of \<^verbatim>\<open>waveformData\<close> are \<^verbatim>\<open>{ level: number, color: number }\<close>.  The loop
  runs while \<^verbatim>\<open>i < waves.length / 2\<close>, a division of real numbers, and reads
  \<^verbatim>\<open>waves.readUInt8(i * 2)\<close> and \<^verbatim>\<open>waves.readUInt8((i + 1) * 2)\<close>.
\<close>

record WaveformSample =
  level :: int
  color :: int

function waveform_loop :: "buffer \<Rightarrow> nat \<Rightarrow> WaveformSample list \<Rightarrow> error + WaveformSample list" where
  "waveform_loop waves i acc =
     (if 2 * i < length waves
      then (case readUInt8 waves (i * 2) of
              Inl e \<Rightarrow> Inl e
            | Inr color' \<Rightarrow>
                (case readUInt8 waves ((i + 1) * 2) of
                   Inl e \<Rightarrow> Inl e
                 | Inr level' \<Rightarrow>
                     waveform_loop waves (i + 1)
                       (acc @ [\<lparr>level = level', WaveformSample.color = color'\<rparr>])))
      else Inr acc)"
  by pat_completeness auto
termination
  by (relation "measure (\<lambda>(waves, i, acc). length waves - 2 * i)") auto

declare waveform_loop.simps [simp del]

record TCNetDataPacketWaveFormData =
  layerID :: int
  dataSize :: int
  totalPacket :: int
  packetNumber :: int
  waveformData :: "WaveformSample list"

definition TCNetDataPacketWaveFormData_read :: "TCNetDataPacketWaveFormData prog" where
  "TCNetDataPacketWaveFormData_read =
     bind_prog (get (\<lambda>b. readUInt8 b 25)) (\<lambda>layerID'.
     bind_prog (get (\<lambda>b. readUInt32LE b 26)) (\<lambda>dataSize'.
     bind_prog (get (\<lambda>b. readUInt8 b 24)) (\<lambda>ty.
     bind_prog (if ty = 16
                then console_assert (dataSize' = 2400) (Assertion_failed_data_size dataSize')
                else return ()) (\<lambda>_.
     bind_prog (get (\<lambda>b. readUInt32LE b 30)) (\<lambda>totalPacket'.
     bind_prog (get (\<lambda>b. readUInt32LE b 34)) (\<lambda>packetNumber'.
     bind_prog (pure_slice (\<lambda>b. slice_buf b 42 (42 + nat dataSize'))) (\<lambda>waves.
     bind_prog (lift (waveform_loop waves 0 [])) (\<lambda>waveformData'.
     return \<lparr>TCNetDataPacketWaveFormData.layerID = layerID',
             TCNetDataPacketWaveFormData.dataSize = dataSize',
             TCNetDataPacketWaveFormData.totalPacket = totalPacket',
             TCNetDataPacketWaveFormData.packetNumber = packetNumber',
             waveformData = waveformData'\<rparr>))))))))"

section \<open>TCNetTimeSyncPacket\<close>

record TCNetTimeSyncPacket =
  step :: int
  nodeListenerSupport :: int
  remoteTimestamp :: int

definition TCNetTimeSyncPacket_read :: "TCNetTimeSyncPacket prog" where
  "TCNetTimeSyncPacket_read =
     bind_prog (get (\<lambda>b. readUInt8 b 24)) (\<lambda>step'.
     bind_prog (get (\<lambda>b. readUInt16LE b 2)) (\<lambda>nodeListenerSupport'.
     bind_prog (get (\<lambda>b. readUInt32LE b 28)) (\<lambda>remoteTimestamp'.
     return \<lparr>TCNetTimeSyncPacket.step = step', nodeListenerSupport = nodeListenerSupport',
             remoteTimestamp = remoteTimestamp'\<rparr>)))"

definition TCNetTimeSyncPacket_write :: "TCNetTimeSyncPacket \<Rightarrow> unit prog" where
  "TCNetTimeSyncPacket_write p = not_supported"

section \<open>TCNetErrorNotification\<close>

record TCNetErrorNotification =
  datatype' :: int
  layerID :: int
  code :: int
  messageType :: int

definition TCNetErrorNotification_read :: "TCNetErrorNotification prog" where
  "TCNetErrorNotification_read =
     bind_prog (get (\<lambda>b. readUInt8 b 24)) (\<lambda>datatype''.
     bind_prog (get (\<lambda>b. readUInt8 b 25)) (\<lambda>layerID'.
     bind_prog (get (\<lambda>b. readUInt16LE b 26)) (\<lambda>code'.
     bind_prog (get (\<lambda>b. readUInt16LE b 28)) (\<lambda>messageType'.
     return \<lparr>datatype' = datatype'', TCNetErrorNotification.layerID = layerID', code = code',
             TCNetErrorNotification.messageType = messageType'\<rparr>))))"

definition TCNetErrorNotification_write :: "TCNetErrorNotification \<Rightarrow> unit prog" where
  "TCNetErrorNotification_write p = not_supported"

section \<open>TCNetControlPacket and TCNetTextDataPacket\<close>

record TCNetControlPacket =
  step :: int
  dataSize :: int
  controlPath :: jsstring

definition TCNetControlPacket_read :: "TCNetControlPacket prog" where
  "TCNetControlPacket_read =
     bind_prog (get (\<lambda>b. readUInt8 b 24)) (\<lambda>step'.
     bind_prog (get (\<lambda>b. readUInt32LE b 26)) (\<lambda>dataSize'.
     bind_prog (pure_slice (\<lambda>b. toString_ascii (slice_buf b 42 (42 + nat dataSize')))) (\<lambda>controlPath'.
     return \<lparr>TCNetControlPacket.step = step', TCNetControlPacket.dataSize = dataSize',
             controlPath = controlPath'\<rparr>)))"

definition TCNetControlPacket_write :: "TCNetControlPacket \<Rightarrow> unit prog" where
  "TCNetControlPacket_write p = not_supported"

section \<open>TCNetKeyboardDataPacket\<close>

record TCNetKeyboardDataPacket =
  dataSize :: int
  keyboardData :: buffer

definition TCNetKeyboardDataPacket_read :: "TCNetKeyboardDataPacket prog" where
  "TCNetKeyboardDataPacket_read =
     bind_prog (get (\<lambda>b. readUInt32LE b 26)) (\<lambda>dataSize'.
     bind_prog (pure_slice (\<lambda>b. slice_buf b 42 2)) (\<lambda>keyboardData'.
     return \<lparr>TCNetKeyboardDataPacket.dataSize = dataSize', keyboardData = keyboardData'\<rparr>))"

definition TCNetKeyboardDataPacket_write :: "TCNetKeyboardDataPacket \<Rightarrow> unit prog" where
  "TCNetKeyboardDataPacket_write p = not_supported"

section \<open>TCNetDataFilePacket\<close>

record TCNetDataFilePacket =
  dataType :: int
  layerID :: int
  dataSize :: int
  totalPacket :: int
  packetNumber :: int
  dataClusterSize :: int
  fileData :: buffer

definition TCNetDataFilePacket_read :: "TCNetDataFilePacket prog" where
  "TCNetDataFilePacket_read =
     bind_prog (return 128) (\<lambda>dataType'.
     bind_prog (get (\<lambda>b. readUInt8 b 25)) (\<lambda>layerID'.
     bind_prog (get (\<lambda>b. readUInt32LE b 26)) (\<lambda>dataSize'.
     bind_prog (get (\<lambda>b. readUInt32LE b 30)) (\<lambda>totalPacket'.
     bind_prog (get (\<lambda>b. readUInt32LE b 34)) (\<lambda>packetNumber'.
     bind_prog (get (\<lambda>b. readUInt32LE b 38)) (\<lambda>dataClusterSize'.
     bind_prog (pure_slice (\<lambda>b. slice_buf b 42 (42 + nat dataSize'))) (\<lambda>fileData'.
     return \<lparr>TCNetDataFilePacket.dataType = dataType',
             TCNetDataFilePacket.layerID = layerID',
             TCNetDataFilePacket.dataSize = dataSize',
             TCNetDataFilePacket.totalPacket = totalPacket',
             TCNetDataFilePacket.packetNumber = packetNumber',
             TCNetDataFilePacket.dataClusterSize = dataClusterSize',
             fileData = fileData'\<rparr>)))))))"

definition TCNetDataFilePacket_write :: "TCNetDataFilePacket \<Rightarrow> unit prog" where
  "TCNetDataFilePacket_write p = not_supported"

section \<open>TCNetApplicationData\<close>

record TCNetApplicationData =
  dataIdentifier1 :: int
  dataIdentifier2 :: int
  dataSize :: int
  totalPackets :: int
  packetNumber :: int
  packetSignature :: int
  data :: buffer

definition TCNetApplicationData_read :: "TCNetApplicationData prog" where
  "TCNetApplicationData_read =
     bind_prog (get (\<lambda>b. readUInt8 b 24)) (\<lambda>dataIdentifier1'.
     bind_prog (get (\<lambda>b. readUInt8 b 25)) (\<lambda>dataIdentifier2'.
     bind_prog (get (\<lambda>b. readUInt32LE b 26)) (\<lambda>dataSize'.
     bind_prog (get (\<lambda>b. readUInt32LE b 30)) (\<lambda>totalPackets'.
     bind_prog (get (\<lambda>b. readUInt32LE b 34)) (\<lambda>packetNumber'.
     bind_prog (get (\<lambda>b. readUInt32LE b 38)) (\<lambda>packetSignature'.
     bind_prog (pure_slice (\<lambda>b. slice_buf b 42 (42 + nat dataSize'))) (\<lambda>data'.
     return \<lparr>dataIdentifier1 = dataIdentifier1', dataIdentifier2 = dataIdentifier2',
             TCNetApplicationData.dataSize = dataSize', totalPackets = totalPackets',
             TCNetApplicationData.packetNumber = packetNumber',
             packetSignature = packetSignature', data = data'\<rparr>)))))))"

definition TCNetApplicationData_write :: "TCNetApplicationData \<Rightarrow> unit prog" where
  "TCNetApplicationData_write p = not_supported"

section \<open>The abstract class TCNetPacket\<close>

text \<open>
  One constructor per class.  An object of a subclass of \<^verbatim>\<open>TCNetDataPacket\<close> has the
  fields \<^verbatim>\<open>dataType\<close> and \<^verbatim>\<open>layer\<close> of its base class besides its own.
  \<^verbatim>\<open>TCNetTextDataPacket\<close> extends \<^verbatim>\<open>TCNetControlPacket\<close> and overrides \<^verbatim>\<open>type\<close> only.
\<close>

datatype TCNetPacket =
    OptInPacket TCNetOptInPacket
  | OptOutPacket TCNetOptOutPacket
  | StatusPacket TCNetStatusPacket
  | RequestPacket TCNetRequestPacket
  | TimePacket TCNetTimePacket
  | DataPacket TCNetDataPacket
  | DataPacketMetrics TCNetDataPacket TCNetDataPacketMetrics
  | DataPacketMetadata TCNetDataPacket TCNetDataPacketMetadata
  | DataPacketMixerData TCNetDataPacket TCNetDataPacketMixerData
  | DataPacketBeatGridData TCNetDataPacket TCNetDataPacketBeatGridData
  | DataPacketCueData TCNetDataPacket TCNetDataPacketCueData
  | DataPacketWaveFormData TCNetDataPacket TCNetDataPacketWaveFormData
  | TimeSyncPacket TCNetTimeSyncPacket
  | ErrorNotification TCNetErrorNotification
  | ControlPacket TCNetControlPacket
  | TextDataPacket TCNetControlPacket
  | KeyboardDataPacket TCNetKeyboardDataPacket
  | DataFilePacket TCNetDataFilePacket
  | ApplicationData TCNetApplicationData

text \<open>
  \<^verbatim>\<open>p.write()\<close>: the method of the class of \<open>p\<close>, or the one it inherits
  (\<^verbatim>\<open>TCNetDataPacketBeatGridData\<close>, \<^verbatim>\<open>TCNetDataPacketCueData\<close> and
  \<^verbatim>\<open>TCNetDataPacketWaveFormData\<close> define none).
\<close>

fun packet_write :: "TCNetPacket \<Rightarrow> unit prog" where
  "packet_write (OptInPacket p) = TCNetOptInPacket_write p"
| "packet_write (OptOutPacket p) = TCNetOptOutPacket_write p"
| "packet_write (StatusPacket p) = TCNetStatusPacket_write p"
| "packet_write (RequestPacket p) = TCNetRequestPacket_write p"
| "packet_write (TimePacket p) = TCNetTimePacket_write p"
| "packet_write (DataPacket d) = TCNetDataPacket_write d"
| "packet_write (DataPacketMetrics d p) = TCNetDataPacketMetrics_write p"
| "packet_write (DataPacketMetadata d p) = TCNetDataPacketMetadata_write p"
| "packet_write (DataPacketMixerData d p) = TCNetDataPacketMixerData_write p"
| "packet_write (DataPacketBeatGridData d p) = TCNetDataPacket_write d"
| "packet_write (DataPacketCueData d p) = TCNetDataPacket_write d"
| "packet_write (DataPacketWaveFormData d p) = TCNetDataPacket_write d"
| "packet_write (TimeSyncPacket p) = TCNetTimeSyncPacket_write p"
| "packet_write (ErrorNotification p) = TCNetErrorNotification_write p"
| "packet_write (ControlPacket p) = TCNetControlPacket_write p"
| "packet_write (TextDataPacket p) = TCNetControlPacket_write p"
| "packet_write (KeyboardDataPacket p) = TCNetKeyboardDataPacket_write p"
| "packet_write (DataFilePacket p) = TCNetDataFilePacket_write p"
| "packet_write (ApplicationData p) = TCNetApplicationData_write p"

text \<open>\<^verbatim>\<open>p.length()\<close>.\<close>

fun packet_length :: "TCNetPacket \<Rightarrow> int" where
  "packet_length (OptInPacket p) = 68"
| "packet_length (OptOutPacket p) = 28"
| "packet_length (StatusPacket p) = 300"
| "packet_length (RequestPacket p) = 26"
| "packet_length (TimePacket p) = 154"
| "packet_length (DataPacket d) = - 1"
| "packet_length (DataPacketMetrics d p) = 122"
| "packet_length (DataPacketMetadata d p) = 548"
| "packet_length (DataPacketMixerData d p) = 548"
| "packet_length (DataPacketBeatGridData d p) = 2442"
| "packet_length (DataPacketCueData d p) = 436"
| "packet_length (DataPacketWaveFormData d p) =
     (if TCNetDataPacket.dataType d = 16 then 2442 else 4884)"
| "packet_length (TimeSyncPacket p) = 32"
| "packet_length (ErrorNotification p) = 30"
| "packet_length (ControlPacket p) = 42 + TCNetControlPacket.dataSize p"
| "packet_length (TextDataPacket p) = 42 + TCNetControlPacket.dataSize p"
| "packet_length (KeyboardDataPacket p) = 44"
| "packet_length (DataFilePacket p) = 42"
| "packet_length (ApplicationData p) = 42"

text \<open>
  \<^verbatim>\<open>p.type()\<close>, a code of \<^verbatim>\<open>TCNetMessageType\<close>; the subclasses of \<^verbatim>\<open>TCNetDataPacket\<close>
  inherit \<^verbatim>\<open>TCNetMessageType.Data\<close>.
\<close>

fun packet_type :: "TCNetPacket \<Rightarrow> int" where
  "packet_type (OptInPacket p) = 2"
| "packet_type (OptOutPacket p) = 3"
| "packet_type (StatusPacket p) = 5"
| "packet_type (RequestPacket p) = 20"
| "packet_type (TimePacket p) = 254"
| "packet_type (DataPacket d) = 200"
| "packet_type (DataPacketMetrics d p) = 200"
| "packet_type (DataPacketMetadata d p) = 200"
| "packet_type (DataPacketMixerData d p) = 200"
| "packet_type (DataPacketBeatGridData d p) = 200"
| "packet_type (DataPacketCueData d p) = 200"
| "packet_type (DataPacketWaveFormData d p) = 200"
| "packet_type (TimeSyncPacket p) = 10"
| "packet_type (ErrorNotification p) = 13"
| "packet_type (ControlPacket p) = 101"
| "packet_type (TextDataPacket p) = 128"
| "packet_type (KeyboardDataPacket p) = 132"
| "packet_type (DataFilePacket p) = 204"
| "packet_type (ApplicationData p) = 30"

text \<open>\<^verbatim>\<open>p.constructor.name\<close>, the name of the class of \<open>p\<close>.\<close>

fun constructor_name :: "TCNetPacket \<Rightarrow> string" where
  "constructor_name (OptInPacket p) = ''TCNetOptInPacket''"
| "constructor_name (OptOutPacket p) = ''TCNetOptOutPacket''"
| "constructor_name (StatusPacket p) = ''TCNetStatusPacket''"
| "constructor_name (RequestPacket p) = ''TCNetRequestPacket''"
| "constructor_name (TimePacket p) = ''TCNetTimePacket''"
| "constructor_name (DataPacket d) = ''TCNetDataPacket''"
| "constructor_name (DataPacketMetrics d p) = ''TCNetDataPacketMetrics''"
| "constructor_name (DataPacketMetadata d p) = ''TCNetDataPacketMetadata''"
| "constructor_name (DataPacketMixerData d p) = ''TCNetDataPacketMixerData''"
| "constructor_name (DataPacketBeatGridData d p) = ''TCNetDataPacketBeatGridData''"
| "constructor_name (DataPacketCueData d p) = ''TCNetDataPacketCueData''"
| "constructor_name (DataPacketWaveFormData d p) = ''TCNetDataPacketWaveFormData''"
| "constructor_name (TimeSyncPacket p) = ''TCNetTimeSyncPacket''"
| "constructor_name (ErrorNotification p) = ''TCNetErrorNotification''"
| "constructor_name (ControlPacket p) = ''TCNetControlPacket''"
| "constructor_name (TextDataPacket p) = ''TCNetTextDataPacket''"
| "constructor_name (KeyboardDataPacket p) = ''TCNetKeyboardDataPacket''"
| "constructor_name (DataFilePacket p) = ''TCNetDataFilePacket''"
| "constructor_name (ApplicationData p) = ''TCNetApplicationData''"

section \<open>Well-formed Metadata buffers and the buffer of the Metadata scenario\<close>

text \<open>
  On the wire a string field is padded with NUL up to its fixed width: after its first NUL
  code unit there are only NULs.  A Metadata buffer is well formed when it has the declared
  length of 548 bytes and both of its string fields are padded in this way.
\<close>

definition nul_padded :: "jsstring \<Rightarrow> bool" where
  "nul_padded s = list_all (\<lambda>c. c = 0) (dropWhile (\<lambda>c. c \<noteq> 0) s)"

definition well_formed_metadata :: "buffer \<Rightarrow> bool" where
  "well_formed_metadata b =
     (length b = 548
      \<and> nul_padded (toString_utf16le (slice_buf b 29 285))
      \<and> nul_padded (toString_utf16le (slice_buf b 285 541)))"

text \<open>
  network.ts has no writer for Metadata.  The buffer of the scenario is built by hand: the
  artist \<^verbatim>\<open>"Artist"\<close> in UTF-16LE at 29, the title \<^verbatim>\<open>"Song"\<close> at 285, both padded
  with NUL to 256 bytes, the key 5 at 541 and the track id 42 at 543, 548 bytes in all.
\<close>

definition scenario_metadata_buffer :: buffer where
  "scenario_metadata_buffer =
     replicate 29 0
     @ [0x41, 0, 0x72, 0, 0x74, 0, 0x69, 0, 0x73, 0, 0x74, 0] @ replicate 244 0
     @ [0x53, 0, 0x6F, 0, 0x6E, 0, 0x67, 0] @ replicate 248 0
     @ [5, 0] @ [42, 0, 0, 0] @ [0]"

section \<open>Properties\<close>

lemmas prog_defs = bind_prog_def get_def pure_slice_def lift_def put_def return_def throw_def
  console_assert_def

lemmas read_defs = readUInt8_def readUInt16LE_def readUInt32LE_def

lemmas write_defs = writeUInt8_def writeUInt16LE_def writeUInt32LE_def write_ascii_def

subsection \<open>Arithmetic of the little-endian accessors\<close>

lemma u32_arith:
  fixes v :: int
  assumes "0 \<le> v" "v \<le> 4294967295"
  shows "v mod 256 + v div 256 mod 256 * 256 + v div 65536 mod 256 * 65536
         + v div 16777216 mod 256 * 16777216 = v"
proof -
  have d2: "v div 65536 = v div 256 div 256"
    using zdiv_zmult2_eq [of 256 v 256] by simp
  have d3: "v div 16777216 = v div 65536 div 256"
    using zdiv_zmult2_eq [of 256 v 65536] by simp
  from assms have "v div 16777216 < 256" by simp
  moreover from assms have "0 \<le> v div 16777216" by simp
  ultimately have top: "v div 16777216 mod 256 = v div 16777216" by simp
  have e1: "v = v div 256 * 256 + v mod 256" by simp
  have e2: "v div 256 = v div 65536 * 256 + v div 256 mod 256" unfolding d2 by simp
  have e3: "v div 65536 = v div 16777216 * 256 + v div 65536 mod 256" unfolding d3 by simp
  show ?thesis unfolding top using e1 e2 e3 by linarith
qed
lemma u16_arith:
  fixes v :: int
  assumes "0 \<le> v" "v \<le> 65535"
  shows "v mod 256 + v div 256 mod 256 * 256 = v"
proof -
  from assms have "v div 256 < 256" by simp
  moreover from assms have "0 \<le> v div 256" by simp
  ultimately have "v div 256 mod 256 = v div 256" by simp
  then show ?thesis by simp
qed

lemma u8_roundtrip:
  "0 \<le> v \<Longrightarrow> v \<le> 255 \<Longrightarrow> uint (word_of_int v :: byte) = v"
  by (simp add: uint_word_of_int take_bit_eq_mod)

lemma u16_roundtrip:
  assumes "0 \<le> v" "v \<le> 65535"
  shows "uint (word_of_int v :: byte) + uint (word_of_int (v div 2 ^ 8) :: byte) * 2 ^ 8 = v"
  using u16_arith [OF assms] by (simp add: uint_word_of_int take_bit_eq_mod)

lemma u32_roundtrip:
  assumes "0 \<le> v" "v \<le> 4294967295"
  shows "uint (word_of_int v :: byte) + uint (word_of_int (v div 2 ^ 8) :: byte) * 2 ^ 8
    + uint (word_of_int (v div 2 ^ 16) :: byte) * 2 ^ 16
    + uint (word_of_int (v div 2 ^ 24) :: byte) * 2 ^ 24 = v"
proof -
  have a: "uint (word_of_int x :: byte) = x mod 256" for x :: int
    by (simp add: uint_word_of_int take_bit_eq_mod)
  have p: "(2::int) ^ 8 = 256" "(2::int) ^ 16 = 65536" "(2::int) ^ 24 = 16777216"
    by simp_all
  show ?thesis
    unfolding a p by (rule u32_arith [OF assms])
qed

subsection \<open>Writing and reading back\<close>

text \<open>
  OptOut, Request and the base Data packet are read back as written, when their fields are
  in range and the buffer is long enough.
\<close>

lemma OptOut_roundtrip:
  assumes "0 \<le> TCNetOptOutPacket.nodeCount p" "TCNetOptOutPacket.nodeCount p \<le> 65535"
    and "0 \<le> TCNetOptOutPacket.nodeListenerPort p" "TCNetOptOutPacket.nodeListenerPort p \<le> 65535"
    and "28 \<le> length (buffer w)"
  shows "fst (bind_prog (TCNetOptOutPacket_write p) (\<lambda>_. TCNetOptOutPacket_read) w) = Inr p"
  using assms
  by (simp add: TCNetOptOutPacket_write_def TCNetOptOutPacket_read_def prog_defs read_defs
      writeUInt16LE_def u16_roundtrip [simplified])

lemma Request_roundtrip:
  assumes "0 \<le> TCNetRequestPacket.dataType p" "TCNetRequestPacket.dataType p \<le> 255"
    and "0 \<le> TCNetRequestPacket.layer p" "TCNetRequestPacket.layer p \<le> 255"
    and "26 \<le> length (buffer w)"
  shows "fst (bind_prog (TCNetRequestPacket_write p) (\<lambda>_. TCNetRequestPacket_read) w) = Inr p"
  using assms
  by (simp add: TCNetRequestPacket_write_def TCNetRequestPacket_read_def prog_defs read_defs
      writeUInt8_def u8_roundtrip)

lemma Data_roundtrip:
  assumes "0 \<le> TCNetDataPacket.dataType p" "TCNetDataPacket.dataType p \<le> 255"
    and "0 \<le> TCNetDataPacket.layer p" "TCNetDataPacket.layer p \<le> 255"
    and "26 \<le> length (buffer w)"
  shows "fst (bind_prog (TCNetDataPacket_write p) (\<lambda>_. TCNetDataPacket_read) w) = Inr p"
  using assms
  by (simp add: TCNetDataPacket_write_def TCNetDataPacket_read_def prog_defs read_defs
      writeUInt8_def u8_roundtrip)

text \<open>So is this header, written into a zeroed buffer of 24 bytes.\<close>

lemma header_roundtrip_example:
  "bind_prog
     (TCNetManagementHeader_write
        \<lparr>nodeId = 7, TCNetManagementHeader.minorVersion = 5,
         TCNetManagementHeader.messageType = 2, nodeName = str ''node'', seq = 9, nodeType = 2,
         nodeOptions = 7, timestamp = 305419896\<rparr>)
     (\<lambda>_. TCNetManagementHeader_read) \<lparr>buffer = replicate 24 0, console = []\<rparr> =
   (Inr \<lparr>nodeId = 7, TCNetManagementHeader.minorVersion = 5,
         TCNetManagementHeader.messageType = 2, nodeName = str ''node'', seq = 9, nodeType = 2,
         nodeOptions = 7, timestamp = 305419896\<rparr>,
    \<lparr>buffer = [7, 0, 3, 5, 0x54, 0x43, 0x4E, 2, 0x6E, 0x6F, 0x64, 0x65, 0, 0, 0, 0, 9, 2, 7, 0,
               0x78, 0x56, 0x34, 0x12],
     console = []\<rparr>)"
  by code_simp

text \<open>
  C1. The round trip fails for OptIn.  \<^verbatim>\<open>write\<close> calls \<^verbatim>\<open>writeUInt8(64, this.majorVersion)\<close>
  with value and offset exchanged: for the versions 1, 2 and 3 it stores the bytes 64, 65
  and 66 at the offsets 1, 2 and 3, inside the header, and leaves the offsets 64, 65 and 66
  as they were.  On a zeroed buffer of 68 bytes \<^verbatim>\<open>read\<close> then returns the versions 0, 0, 0.
\<close>

theorem OptIn_write_read_loses_versions:
  "bind_prog
     (TCNetOptInPacket_write
        \<lparr>TCNetOptInPacket.nodeCount = 1, TCNetOptInPacket.nodeListenerPort = 65023, uptime = 0,
         vendorName = str ''TEST'', appName = str ''SIM'', majorVersion = 1,
         TCNetOptInPacket.minorVersion = 2, bugVersion = 3\<rparr>)
     (\<lambda>_. TCNetOptInPacket_read) \<lparr>buffer = replicate 68 0, console = []\<rparr> =
   (Inr \<lparr>TCNetOptInPacket.nodeCount = 1, TCNetOptInPacket.nodeListenerPort = 65023, uptime = 0,
         vendorName = str ''TEST'', appName = str ''SIM'', majorVersion = 0,
         TCNetOptInPacket.minorVersion = 0, bugVersion = 0\<rparr>,
    \<lparr>buffer = [0, 64, 65, 66] @ replicate 20 0 @ [1, 0, 255, 253, 0, 0, 0, 0, 84, 69, 83, 84]
        @ replicate 12 0 @ [83, 73, 77] @ replicate 17 0,
     console = []\<rparr>)"
  by code_simp

subsection \<open>The management header\<close>

text \<open>On a buffer of 24 bytes or more the header decoder always returns a header.\<close>

lemma header_read_total:
  assumes "24 \<le> length (buffer w)"
  shows "fst (TCNetManagementHeader_read w) =
    Inr \<lparr>nodeId = uint (buffer w ! 0) + 256 * uint (buffer w ! 1),
         TCNetManagementHeader.minorVersion = uint (buffer w ! 3),
         TCNetManagementHeader.messageType = uint (buffer w ! 7),
         nodeName = replace_nul_tail (toString_ascii (slice_buf (buffer w) 8 16)),
         seq = uint (buffer w ! 16), nodeType = uint (buffer w ! 17),
         nodeOptions = uint (buffer w ! 18) + 256 * uint (buffer w ! 19),
         timestamp = uint (buffer w ! 20) + 256 * uint (buffer w ! 21)
           + 65536 * uint (buffer w ! 22) + 16777216 * uint (buffer w ! 23)\<rparr>"
  using assms by (simp add: TCNetManagementHeader_read_def prog_defs read_defs)

text \<open>
  C2. A header with major version 2 and magic \<^verbatim>\<open>"XYZ"\<close> is not rejected: both
  \<^verbatim>\<open>console.assert\<close> calls print their line, and \<^verbatim>\<open>read\<close> returns the decoded header.
\<close>

theorem header_read_accepts_bad_version_and_magic:
  "TCNetManagementHeader_read
     \<lparr>buffer = [1, 0, 2, 5, 0x58, 0x59, 0x5A, 2, 0x6E, 0x6F, 0x64, 0x65, 0, 0, 0, 0, 9, 2, 7, 0,
                0x78, 0x56, 0x34, 0x12],
      console = []\<rparr> =
   (Inr \<lparr>nodeId = 1, TCNetManagementHeader.minorVersion = 5,
         TCNetManagementHeader.messageType = 2, nodeName = str ''node'', seq = 9, nodeType = 2,
         nodeOptions = 7, timestamp = 305419896\<rparr>,
    \<lparr>buffer = [1, 0, 2, 5, 0x58, 0x59, 0x5A, 2, 0x6E, 0x6F, 0x64, 0x65, 0, 0, 0, 0, 9, 2, 7, 0,
               0x78, 0x56, 0x34, 0x12],
     console = [Assertion_failed, Assertion_failed]\<rparr>)"
  by code_simp

subsection \<open>TimeSync\<close>

lemma TimeSync_read_ge:
  assumes "32 \<le> length (buffer w)"
  shows "TCNetTimeSyncPacket_read w =
    (Inr \<lparr>TCNetTimeSyncPacket.step = uint (buffer w ! 24),
          nodeListenerSupport = uint (buffer w ! 2) + 256 * uint (buffer w ! 3),
          remoteTimestamp = uint (buffer w ! 28) + 256 * uint (buffer w ! 29)
             + 65536 * uint (buffer w ! 30) + 16777216 * uint (buffer w ! 31)\<rparr>, w)"
  using assms by (simp add: TCNetTimeSyncPacket_read_def prog_defs read_defs)

text \<open>
  C7. For every 32-byte TimeSync buffer the decoder succeeds; \<open>step\<close> is the byte at
  offset 24, \<open>remoteTimestamp\<close> the little-endian 32-bit value at offsets 28..31, and
  \<open>nodeListenerSupport\<close> the little-endian 16-bit value at the absolute offsets 2 and 3.
  These two bytes belong to the 24-byte management header, not to the body: byte 2 is the
  major version that the header decoder checks, and byte 3 is the header's
  \<open>minorVersion\<close>.
\<close>

theorem TimeSync_read_layout:
  assumes "length b = 32"
  shows "TCNetTimeSyncPacket_read \<lparr>buffer = b, console = c\<rparr> =
    (Inr \<lparr>TCNetTimeSyncPacket.step = uint (b ! 24),
          nodeListenerSupport = uint (b ! 2) + 256 * uint (b ! 3),
          remoteTimestamp = uint (b ! 28) + 256 * uint (b ! 29)
             + 65536 * uint (b ! 30) + 16777216 * uint (b ! 31)\<rparr>,
     \<lparr>buffer = b, console = c\<rparr>)
    \<and> map_sum id TCNetManagementHeader.minorVersion
          (fst (TCNetManagementHeader_read \<lparr>buffer = b, console = c\<rparr>)) = Inr (uint (b ! 3))"
  using assms TimeSync_read_ge [of "\<lparr>buffer = b, console = c\<rparr>"]
    header_read_total [of "\<lparr>buffer = b, console = c\<rparr>"]
  by simp

theorem TimeSync_read_layout_witness:
  "length (replicate 2 0 @ [3, 5] @ replicate 20 0 @ [1, 0, 0, 0, 0x78, 0x56, 0x34, 0x12 :: byte]) = 32
   \<and> TCNetTimeSyncPacket_read
       \<lparr>buffer = replicate 2 0 @ [3, 5] @ replicate 20 0 @ [1, 0, 0, 0, 0x78, 0x56, 0x34, 0x12],
        console = []\<rparr> =
     (Inr \<lparr>TCNetTimeSyncPacket.step = 1, nodeListenerSupport = 1283,
           remoteTimestamp = 305419896\<rparr>,
      \<lparr>buffer = replicate 2 0 @ [3, 5] @ replicate 20 0 @ [1, 0, 0, 0, 0x78, 0x56, 0x34, 0x12],
       console = []\<rparr>)
   \<and> map_sum id TCNetManagementHeader.minorVersion
         (fst (TCNetManagementHeader_read
           \<lparr>buffer = replicate 2 0 @ [3, 5] @ replicate 20 0 @ [1, 0, 0, 0, 0x78, 0x56, 0x34, 0x12],
            console = []\<rparr>)) = Inr 5"
  using TimeSync_read_layout
    [of "replicate 2 0 @ [3, 5] @ replicate 20 0 @ [1, 0, 0, 0, 0x78, 0x56, 0x34, 0x12]" "[]"]
  by (simp add: nth_append)

subsection \<open>Strings\<close>

lemma all_nul_no_line_terminator:
  "list_all (\<lambda>c. c = 0) cs \<Longrightarrow> no_line_terminator cs"
  by (induction cs) (simp_all add: isLineTerminator_def)

lemma replace_nul_tail_takeWhile:
  "no_line_terminator (dropWhile (\<lambda>c. c \<noteq> 0) s) \<Longrightarrow>
   replace_nul_tail s = takeWhile (\<lambda>c. c \<noteq> 0) s"
  by (induction s) (auto simp: isLineTerminator_def split: if_splits)

lemma replace_nul_tail_padded:
  "nul_padded s \<Longrightarrow> replace_nul_tail s = takeWhile (\<lambda>c. c \<noteq> 0) s"
  by (simp add: nul_padded_def all_nul_no_line_terminator replace_nul_tail_takeWhile)

text \<open>
  C4. \<^verbatim>\<open>TCNetDataPacketMixerData.read\<close> does not apply the \<^verbatim>\<open>replace\<close>: a \<^verbatim>\<open>mixerName\<close>
  field of 16 NUL bytes decodes to a string of 16 NUL characters, not to the empty string.
\<close>

theorem MixerData_mixerName_not_trimmed:
  "map_sum id mixerName
     (fst (TCNetDataPacketMixerData_read \<lparr>buffer = replicate 548 0, console = []\<rparr>))
   = Inr (replicate 16 0)"
  by code_simp

text \<open>
  The readers that do apply the \<^verbatim>\<open>replace\<close> keep a NUL and what follows it when a line
  terminator comes later in the field: the node name bytes \<^verbatim>\<open>A NUL LF B NUL NUL NUL NUL\<close>
  decode to the four characters \<^verbatim>\<open>A NUL LF B\<close>.
\<close>

lemma header_nodeName_keeps_NUL_before_line_break:
  "map_sum id nodeName
     (fst (TCNetManagementHeader_read
        \<lparr>buffer = [1, 0, 3, 5, 0x54, 0x43, 0x4E, 2, 0x41, 0, 0x0A, 0x42, 0, 0, 0, 0, 9, 2, 7, 0,
                   0x78, 0x56, 0x34, 0x12],
         console = []\<rparr>))
   = Inr [0x41, 0, 0x0A, 0x42]"
  by code_simp

subsection \<open>Metadata\<close>

lemma Metadata_read_ge:
  assumes "547 \<le> length (buffer w)"
  shows "TCNetDataPacketMetadata_read w =
    (Inr \<lparr>trackArtist = replace_nul_tail (toString_utf16le (slice_buf (buffer w) 29 285)),
          trackTitle = replace_nul_tail (toString_utf16le (slice_buf (buffer w) 285 541)),
          trackKey = uint (buffer w ! 541) + 256 * uint (buffer w ! 542),
          TCNetDataPacketMetadata.trackID = uint (buffer w ! 543) + 256 * uint (buffer w ! 544)
             + 65536 * uint (buffer w ! 545) + 16777216 * uint (buffer w ! 546)\<rparr>, w)"
  using assms by (simp add: TCNetDataPacketMetadata_read_def prog_defs read_defs)

text \<open>
  C5. For every well-formed 548-byte Metadata buffer the decoder returns \<open>trackArtist\<close>
  as the UTF-16LE decoding of the bytes 29..285 up to the first NUL, \<open>trackTitle\<close> as that
  of the bytes 285..541, \<open>trackKey\<close> as the little-endian 16-bit value at 541 and
  \<open>trackID\<close> as the little-endian 32-bit value at 543; and the buffer of the scenario,
  with artist \<^verbatim>\<open>"Artist"\<close>, title \<^verbatim>\<open>"Song"\<close>, key 5 and track id 42, is decoded to
  exactly these values.
\<close>

theorem Metadata_read_layout:
  "(well_formed_metadata b \<longrightarrow>
     TCNetDataPacketMetadata_read \<lparr>buffer = b, console = c\<rparr> =
     (Inr \<lparr>trackArtist = takeWhile (\<lambda>x. x \<noteq> 0) (toString_utf16le (slice_buf b 29 285)),
           trackTitle = takeWhile (\<lambda>x. x \<noteq> 0) (toString_utf16le (slice_buf b 285 541)),
           trackKey = uint (b ! 541) + 256 * uint (b ! 542),
           TCNetDataPacketMetadata.trackID = uint (b ! 543) + 256 * uint (b ! 544)
              + 65536 * uint (b ! 545) + 16777216 * uint (b ! 546)\<rparr>,
      \<lparr>buffer = b, console = c\<rparr>))
   \<and> TCNetDataPacketMetadata_read \<lparr>buffer = scenario_metadata_buffer, console = []\<rparr> =
     (Inr \<lparr>trackArtist = str ''Artist'', trackTitle = str ''Song'', trackKey = 5,
           TCNetDataPacketMetadata.trackID = 42\<rparr>,
      \<lparr>buffer = scenario_metadata_buffer, console = []\<rparr>)"
proof
  show "well_formed_metadata b \<longrightarrow>
     TCNetDataPacketMetadata_read \<lparr>buffer = b, console = c\<rparr> =
     (Inr \<lparr>trackArtist = takeWhile (\<lambda>x. x \<noteq> 0) (toString_utf16le (slice_buf b 29 285)),
           trackTitle = takeWhile (\<lambda>x. x \<noteq> 0) (toString_utf16le (slice_buf b 285 541)),
           trackKey = uint (b ! 541) + 256 * uint (b ! 542),
           TCNetDataPacketMetadata.trackID = uint (b ! 543) + 256 * uint (b ! 544)
              + 65536 * uint (b ! 545) + 16777216 * uint (b ! 546)\<rparr>,
      \<lparr>buffer = b, console = c\<rparr>)"
    using Metadata_read_ge [of "\<lparr>buffer = b, console = c\<rparr>"]
    by (simp add: well_formed_metadata_def replace_nul_tail_padded)
  show "TCNetDataPacketMetadata_read \<lparr>buffer = scenario_metadata_buffer, console = []\<rparr> =
     (Inr \<lparr>trackArtist = str ''Artist'', trackTitle = str ''Song'', trackKey = 5,
           TCNetDataPacketMetadata.trackID = 42\<rparr>,
      \<lparr>buffer = scenario_metadata_buffer, console = []\<rparr>)"
    by code_simp
qed

lemma scenario_wf: "well_formed_metadata scenario_metadata_buffer"
  by code_simp

lemma scenario_vals: "takeWhile (\<lambda>x. x \<noteq> 0) (toString_utf16le (slice_buf scenario_metadata_buffer 29 285)) = str ''Artist''"
  "takeWhile (\<lambda>x. x \<noteq> 0) (toString_utf16le (slice_buf scenario_metadata_buffer 285 541)) = str ''Song''"
  "uint (scenario_metadata_buffer ! 541) = 5"
  "uint (scenario_metadata_buffer ! 542) = 0"
  "uint (scenario_metadata_buffer ! 543) = 42"
  "uint (scenario_metadata_buffer ! 544) = 0"
  "uint (scenario_metadata_buffer ! 545) = 0"
  "uint (scenario_metadata_buffer ! 546) = 0"
  by code_simp+

theorem Metadata_read_layout_witness:
  "well_formed_metadata scenario_metadata_buffer
   \<and> TCNetDataPacketMetadata_read \<lparr>buffer = scenario_metadata_buffer, console = [Assertion_failed]\<rparr> =
     (Inr \<lparr>trackArtist = str ''Artist'', trackTitle = str ''Song'', trackKey = 5,
           TCNetDataPacketMetadata.trackID = 42\<rparr>,
      \<lparr>buffer = scenario_metadata_buffer, console = [Assertion_failed]\<rparr>)"
  using Metadata_read_layout [of scenario_metadata_buffer "[Assertion_failed]"] scenario_wf
  by (simp add: scenario_vals)

text \<open>
  Outside the well-formed buffers the \<^verbatim>\<open>replace\<close> shows again: an artist field that
  starts with the code units \<^verbatim>\<open>A NUL LF\<close> and is NUL from there on is decoded to these
  three characters.
\<close>

lemma Metadata_artist_keeps_NUL_before_line_break:
  "map_sum id trackArtist
     (fst (TCNetDataPacketMetadata_read
        \<lparr>buffer = replicate 29 0 @ [0x41, 0, 0, 0, 0x0A, 0] @ replicate 513 0, console = []\<rparr>))
   = Inr [0x41, 0, 0x0A]"
  by code_simp

subsection \<open>Short buffers\<close>

lemma for_each_get:
  "(\<And>n. n \<in> set ns \<Longrightarrow> f n (buffer w) = Inr (g n)) \<Longrightarrow>
   for_each ns (\<lambda>n. get (f n)) w = (Inr (map g ns), w)"
  by (induction ns) (simp_all add: prog_defs)

lemma for_each_pure_slice:
  "for_each ns (\<lambda>n. pure_slice (f n)) w = (Inr (map (\<lambda>n. f n (buffer w)) ns), w)"
  by (induction ns) (simp_all add: prog_defs)

lemma Status_read_ge:
  assumes "85 \<le> length (buffer w)"
  shows "TCNetStatusPacket_read w =
    (Inr \<lparr>TCNetStatusPacket.nodeCount = uint (buffer w ! 24) + 256 * uint (buffer w ! 25),
          TCNetStatusPacket.nodeListenerPort = uint (buffer w ! 26) + 256 * uint (buffer w ! 27),
          layerSource = map (\<lambda>n. uint (buffer w ! (34 + n))) [0..<8],
          layerStatus = map (\<lambda>n. uint (buffer w ! (42 + n))) [0..<8],
          TCNetStatusPacket.trackID = map (\<lambda>n. uint (buffer w ! (50 + n * 4))
              + 256 * uint (buffer w ! (50 + n * 4 + 1))
              + 65536 * uint (buffer w ! (50 + n * 4 + 2))
              + 16777216 * uint (buffer w ! (50 + n * 4 + 3))) [0..<8],
          smpteMode = uint (buffer w ! 83), autoMasterMode = uint (buffer w ! 84),
          layerName = map (\<lambda>n. replace_nul_tail (toString_ascii
              (slice_buf (buffer w) (172 + n * 16) (172 + (n + 1) * 16)))) [0..<8]\<rparr>, w)"
proof -
  have a: "for_each [0..<8] (\<lambda>n. get (\<lambda>b. readUInt8 b (34 + n))) w =
      (Inr (map (\<lambda>n. uint (buffer w ! (34 + n))) [0..<8]), w)"
    using assms by (intro for_each_get) (simp add: read_defs)
  have b: "for_each [0..<8] (\<lambda>n. get (\<lambda>b. readUInt8 b (42 + n))) w =
      (Inr (map (\<lambda>n. uint (buffer w ! (42 + n))) [0..<8]), w)"
    using assms by (intro for_each_get) (simp add: read_defs)
  have c: "for_each [0..<8] (\<lambda>n. get (\<lambda>b. readUInt32LE b (50 + n * 4))) w =
      (Inr (map (\<lambda>n. uint (buffer w ! (50 + n * 4))
              + 256 * uint (buffer w ! (50 + n * 4 + 1))
              + 65536 * uint (buffer w ! (50 + n * 4 + 2))
              + 16777216 * uint (buffer w ! (50 + n * 4 + 3))) [0..<8]), w)"
    using assms by (intro for_each_get) (simp add: read_defs add.assoc)
  have r: "readUInt16LE (buffer w) 24 = Inr (uint (buffer w ! 24) + 256 * uint (buffer w ! 25))"
    "readUInt16LE (buffer w) 26 = Inr (uint (buffer w ! 26) + 256 * uint (buffer w ! 27))"
    "readUInt8 (buffer w) 83 = Inr (uint (buffer w ! 83))"
    "readUInt8 (buffer w) 84 = Inr (uint (buffer w ! 84))"
    using assms by (simp_all add: read_defs)
  show ?thesis
    unfolding TCNetStatusPacket_read_def
    by (simp add: bind_prog_def get_def return_def a b c r for_each_pure_slice del: upt.simps map_eq_conv)
qed

lemma utf16_len: "length (toString_utf16le b) = length b div 2"
  by (induction b rule: toString_utf16le.induct) simp_all

lemma Metadata_read_short:
  "length b < 547 \<Longrightarrow> TCNetDataPacketMetadata_read \<lparr>buffer = b, console = c\<rparr> =
         (Inl (RangeError (if length b < 543 then 541 else 543)), \<lparr>buffer = b, console = c\<rparr>)"
  by (simp add: TCNetDataPacketMetadata_read_def prog_defs read_defs)


text \<open>
  C3 (counterexample).  A Status buffer of 180 bytes is shorter than the span of its layer
  names, the bytes 172..300.  \<^verbatim>\<open>read\<close> does not raise: the first layer name is decoded
  from the 8 bytes that are there instead of 16, and the other seven from none.
\<close>

theorem Status_read_truncates_layerName_silently:
  "TCNetStatusPacket_read \<lparr>buffer = replicate 180 0x41, console = []\<rparr> =
   (Inr \<lparr>TCNetStatusPacket.nodeCount = 16705, TCNetStatusPacket.nodeListenerPort = 16705,
         layerSource = [65, 65, 65, 65, 65, 65, 65, 65],
         layerStatus = [65, 65, 65, 65, 65, 65, 65, 65],
         TCNetStatusPacket.trackID =
           [1094795585, 1094795585, 1094795585, 1094795585, 1094795585,
            1094795585, 1094795585, 1094795585],
         smpteMode = 65, autoMasterMode = 65,
         layerName = [str ''AAAAAAAA'', [], [], [], [], [], [], []]\<rparr>,
    \<lparr>buffer = replicate 180 0x41, console = []\<rparr>)"
  by code_simp

text \<open>
  C3 (as amended).  The integer accessors fail with a RangeError exactly when the buffer is
  shorter than offset plus width, and so the Metadata decoder fails on every buffer shorter
  than 547 bytes, at its read of the key at 541 or of the track id at 543.  A slice never
  fails: a fixed-width string read decodes the bytes of its span that the buffer has, as
  many characters as there are bytes for ASCII and half as many for UTF-16LE, and
  the Status decoder, whose layer names are read last, succeeds on every buffer of 85 bytes
  or more with each layer name decoded from the bytes present.
\<close>

theorem short_buffer_reads:
  "(readUInt8 b off = Inl (RangeError (int off))) = (length b < off + 1)
   \<and> (readUInt16LE b off = Inl (RangeError (int off))) = (length b < off + 2)
   \<and> (readUInt32LE b off = Inl (RangeError (int off))) = (length b < off + 4)
   \<and> (length b < 547 \<longrightarrow>
        TCNetDataPacketMetadata_read \<lparr>buffer = b, console = c\<rparr> =
        (Inl (RangeError (if length b < 543 then 541 else 543)), \<lparr>buffer = b, console = c\<rparr>))
   \<and> length (toString_ascii (slice_buf b start end')) = min end' (length b) - start
   \<and> length (toString_utf16le (slice_buf b start end')) = (min end' (length b) - start) div 2
   \<and> (85 \<le> length b \<longrightarrow>
        map_sum id layerName (fst (TCNetStatusPacket_read \<lparr>buffer = b, console = c\<rparr>)) =
        Inr (map (\<lambda>n. replace_nul_tail (toString_ascii
               (slice_buf b (172 + n * 16) (172 + (n + 1) * 16)))) [0..<8]))"
proof (intro conjI impI)
  show "(readUInt8 b off = Inl (RangeError (int off))) = (length b < off + 1)"
    by (auto simp: readUInt8_def)
  show "(readUInt16LE b off = Inl (RangeError (int off))) = (length b < off + 2)"
    by (auto simp: readUInt16LE_def)
  show "(readUInt32LE b off = Inl (RangeError (int off))) = (length b < off + 4)"
    by (auto simp: readUInt32LE_def)
  show "length (toString_ascii (slice_buf b start end')) = min end' (length b) - start"
    by (simp add: toString_ascii_def slice_buf_def)
  show "length (toString_utf16le (slice_buf b start end')) = (min end' (length b) - start) div 2"
    by (simp add: utf16_len slice_buf_def)
next
  assume "length b < 547"
  then show "TCNetDataPacketMetadata_read \<lparr>buffer = b, console = c\<rparr> =
        (Inl (RangeError (if length b < 543 then 541 else 543)), \<lparr>buffer = b, console = c\<rparr>)"
    by (rule Metadata_read_short)
next
  assume "85 \<le> length b"
  then show "map_sum id layerName (fst (TCNetStatusPacket_read \<lparr>buffer = b, console = c\<rparr>)) =
        Inr (map (\<lambda>n. replace_nul_tail (toString_ascii
               (slice_buf b (172 + n * 16) (172 + (n + 1) * 16)))) [0..<8])"
    using Status_read_ge [of "\<lparr>buffer = b, console = c\<rparr>"] by simp
qed

theorem short_buffer_reads_witness:
  "readUInt16LE (replicate 100 0x41) 99 = Inl (RangeError 99)
   \<and> length (replicate 100 (0x41 :: byte)) < 547
   \<and> TCNetDataPacketMetadata_read \<lparr>buffer = replicate 100 0x41, console = []\<rparr> =
       (Inl (RangeError 541), \<lparr>buffer = replicate 100 0x41, console = []\<rparr>)
   \<and> length (toString_utf16le (slice_buf (replicate 100 0x41) 29 285)) = 35
   \<and> 85 \<le> length (replicate 100 (0x41 :: byte))
   \<and> map_sum id layerName
         (fst (TCNetStatusPacket_read \<lparr>buffer = replicate 100 0x41, console = []\<rparr>)) =
       Inr (replicate 8 [])"
  using short_buffer_reads [of "replicate 100 0x41" 99 "[]" 29 285]
  by (simp add: slice_buf_def toString_ascii_def map_replicate_const del: upt.simps)

subsection \<open>Waveform data\<close>

text \<open>
  The loop of \<^verbatim>\<open>TCNetDataPacketWaveFormData.read\<close> raises whenever it is entered: in its
  last round \<^verbatim>\<open>(i + 1) * 2\<close> is the first even number that is not below the length of
  the payload.
\<close>

lemma waveform_loop_raises:
  "2 * i < length waves \<Longrightarrow>
   waveform_loop waves i acc = Inl (RangeError (int (2 * ((length waves + 1) div 2))))"
proof (induction waves i acc rule: waveform_loop.induct)
  case (1 waves i acc)
  show ?case
  proof (cases "(i + 1) * 2 < length waves")
    case True
    then have a: "readUInt8 waves (i * 2) = Inr (uint (waves ! (i * 2)))"
      and b: "readUInt8 waves ((i + 1) * 2) = Inr (uint (waves ! ((i + 1) * 2)))"
      by (simp_all add: readUInt8_def)
    from True have "2 * (i + 1) < length waves" by simp
    from "1.IH" [OF "1.prems" a b this] "1.prems" a b show ?thesis
      by (subst waveform_loop.simps) simp
  next
    case False
    with "1.prems" have a: "readUInt8 waves (i * 2) = Inr (uint (waves ! (i * 2)))"
      and b: "readUInt8 waves ((i + 1) * 2) = Inl (RangeError (int ((i + 1) * 2)))"
      by (simp_all add: readUInt8_def)
    from False "1.prems" have "(i + 1) * 2 = 2 * ((length waves + 1) div 2)" by presburger
    with "1.prems" a b show ?thesis
      by (subst waveform_loop.simps) simp
  qed
qed

lemma waveform_read_raises:
  assumes len: "43 \<le> length (buffer w)"
    and d: "d = uint (buffer w ! 26) + 256 * uint (buffer w ! 27)
              + 65536 * uint (buffer w ! 28) + 16777216 * uint (buffer w ! 29)"
    and pos: "1 \<le> d"
  shows "TCNetDataPacketWaveFormData_read w =
    (Inl (RangeError (int (2 * ((min (nat d) (length (buffer w) - 42) + 1) div 2)))),
     if buffer w ! 24 = 16 \<and> d \<noteq> 2400
     then w\<lparr>console := console w @ [Assertion_failed_data_size d]\<rparr> else w)"
proof -
  let ?waves = "slice_buf (buffer w) 42 (42 + nat d)"
  have l: "length ?waves = min (nat d) (length (buffer w) - 42)"
    by (simp add: slice_buf_def)
  with len pos have "2 * 0 < length ?waves" by simp
  then have loop: "waveform_loop ?waves 0 [] =
      Inl (RangeError (int (2 * ((min (nat d) (length (buffer w) - 42) + 1) div 2))))"
    using waveform_loop_raises [of 0 ?waves "[]"] l by simp
  have ty: "(uint (buffer w ! 24) = 16) = (buffer w ! 24 = 16)"
    by (simp add: word_uint_eq_iff)
  have r25: "readUInt8 (buffer w) 25 = Inr (uint (buffer w ! 25))"
    and r24: "readUInt8 (buffer w) 24 = Inr (uint (buffer w ! 24))"
    and r26: "readUInt32LE (buffer w) 26 = Inr d"
    and r30: "readUInt32LE (buffer w) 30 = Inr (uint (buffer w ! 30) + uint (buffer w ! 31) * 2 ^ 8
               + uint (buffer w ! 32) * 2 ^ 16 + uint (buffer w ! 33) * 2 ^ 24)"
    and r34: "readUInt32LE (buffer w) 34 = Inr (uint (buffer w ! 34) + uint (buffer w ! 35) * 2 ^ 8
               + uint (buffer w ! 36) * 2 ^ 16 + uint (buffer w ! 37) * 2 ^ 24)"
    using len by (simp_all add: read_defs d)
  show ?thesis
    using loop
    by (auto simp add: TCNetDataPacketWaveFormData_read_def prog_defs r24 r25 r26 r30 r34 ty)
qed

text \<open>
  C9. A Small waveform buffer of exactly 2442 bytes with \<open>dataSize\<close> 2400, and a Big
  waveform buffer of exactly 4884 bytes with the full payload of 4842 bytes, are never
  decoded: the last round of the loop reads the level at the payload index that equals the
  length of the payload, and \<^verbatim>\<open>read\<close> raises the RangeError for that index.
\<close>

theorem waveform_read_always_raises:
  "(length b = 2442 \<and> b ! 24 = 16
      \<and> uint (b ! 26) + 256 * uint (b ! 27) + 65536 * uint (b ! 28) + 16777216 * uint (b ! 29) = 2400
    \<longrightarrow> TCNetDataPacketWaveFormData_read \<lparr>buffer = b, console = c\<rparr> =
          (Inl (RangeError 2400), \<lparr>buffer = b, console = c\<rparr>))
   \<and> (length b = 4884 \<and> b ! 24 = 32
      \<and> uint (b ! 26) + 256 * uint (b ! 27) + 65536 * uint (b ! 28) + 16777216 * uint (b ! 29) = 4842
    \<longrightarrow> TCNetDataPacketWaveFormData_read \<lparr>buffer = b, console = c\<rparr> =
          (Inl (RangeError 4842), \<lparr>buffer = b, console = c\<rparr>))"
  using waveform_read_raises [of "\<lparr>buffer = b, console = c\<rparr>" 2400]
    waveform_read_raises [of "\<lparr>buffer = b, console = c\<rparr>" 4842]
  by auto


theorem waveform_read_always_raises_witness:
  "length (replicate 24 0 @ [16, 1, 0x60, 0x09, 0, 0] @ replicate 2412 (0 :: byte)) = 2442
   \<and> (replicate 24 0 @ [16, 1, 0x60, 0x09, 0, 0] @ replicate 2412 (0 :: byte)) ! 24 = 16
   \<and> TCNetDataPacketWaveFormData_read
        \<lparr>buffer = replicate 24 0 @ [16, 1, 0x60, 0x09, 0, 0] @ replicate 2412 0, console = []\<rparr> =
       (Inl (RangeError 2400),
        \<lparr>buffer = replicate 24 0 @ [16, 1, 0x60, 0x09, 0, 0] @ replicate 2412 0, console = []\<rparr>)
   \<and> length (replicate 24 0 @ [32, 1, 0xEA, 0x12, 0, 0] @ replicate 4854 (7 :: byte)) = 4884
   \<and> (replicate 24 0 @ [32, 1, 0xEA, 0x12, 0, 0] @ replicate 4854 (7 :: byte)) ! 24 = 32
   \<and> TCNetDataPacketWaveFormData_read
        \<lparr>buffer = replicate 24 0 @ [32, 1, 0xEA, 0x12, 0, 0] @ replicate 4854 7, console = []\<rparr> =
       (Inl (RangeError 4842),
        \<lparr>buffer = replicate 24 0 @ [32, 1, 0xEA, 0x12, 0, 0] @ replicate 4854 7, console = []\<rparr>)"
  using waveform_read_always_raises
      [of "replicate 24 0 @ [16, 1, 0x60, 0x09, 0, 0] @ replicate 2412 0" "[]"]
    waveform_read_always_raises
      [of "replicate 24 0 @ [32, 1, 0xEA, 0x12, 0, 0] @ replicate 4854 7" "[]"]
  by (simp add: nth_append)

text \<open>
  C6. A Big waveform buffer with \<open>dataSize\<close> 4 and the payload 1, 2, 3, 4 is not decoded
  to the samples (color 1, level 2) and (color 3, level 4): the first round pairs the color
  at index 0 with the level at index 2, the second round reads index 4, and \<^verbatim>\<open>read\<close>
  raises.
\<close>

theorem WaveFormData_read_raises_on_payload:
  "TCNetDataPacketWaveFormData_read
     \<lparr>buffer = replicate 24 0 @ [32, 1, 4, 0, 0, 0, 1, 0, 0, 0, 0, 0, 0, 0] @ replicate 4 0
                @ [1, 2, 3, 4],
      console = []\<rparr> =
    (Inl (RangeError 4),
     \<lparr>buffer = replicate 24 0 @ [32, 1, 4, 0, 0, 0, 1, 0, 0, 0, 0, 0, 0, 0] @ replicate 4 0
                @ [1, 2, 3, 4],
      console = []\<rparr>)"
  by code_simp

subsection \<open>Keyboard data\<close>

text \<open>
  \<^verbatim>\<open>this.buffer.slice(42, 2)\<close> ends before it starts: \<open>keyboardData\<close> is empty for
  every buffer.
\<close>

lemma Keyboard_read_ge:
  assumes "30 \<le> length (buffer w)"
  shows "TCNetKeyboardDataPacket_read w =
    (Inr \<lparr>TCNetKeyboardDataPacket.dataSize = uint (buffer w ! 26) + 256 * uint (buffer w ! 27)
            + 65536 * uint (buffer w ! 28) + 16777216 * uint (buffer w ! 29),
          keyboardData = []\<rparr>, w)"
  using assms by (simp add: TCNetKeyboardDataPacket_read_def prog_defs read_defs slice_buf_def)

text \<open>
  C8. A Keyboard buffer of 44 bytes with \<open>dataSize\<close> 2 and the payload bytes 0x41, 0x42 at
  42 and 43 is decoded with the declared size 2 and an empty \<open>keyboardData\<close>.
\<close>

theorem Keyboard_read_empty_keyboardData:
  "TCNetKeyboardDataPacket_read
     \<lparr>buffer = replicate 26 0 @ [2, 0, 0, 0] @ replicate 12 0 @ [0x41, 0x42], console = []\<rparr> =
    (Inr \<lparr>TCNetKeyboardDataPacket.dataSize = 2, keyboardData = []\<rparr>,
     \<lparr>buffer = replicate 26 0 @ [2, 0, 0, 0] @ replicate 12 0 @ [0x41, 0x42], console = []\<rparr>)"
  by code_simp

subsection \<open>Packets without serialization\<close>

lemma bind_prog_not_Error:
  assumes "\<And>w. fst (m w) \<noteq> Inl (Error s)" and "\<And>x w. fst (f x w) \<noteq> Inl (Error s)"
  shows "fst (bind_prog m f w) \<noteq> Inl (Error s)"
proof (cases "m w")
  case (Pair r w')
  with assms(1) [of w] assms(2) show ?thesis
    by (cases r) (auto simp: bind_prog_def)
qed

lemma put_not_Error:
  assumes "\<And>b. f b \<noteq> Inl (Error s)"
  shows "fst (put f w) \<noteq> Inl (Error s)"
  using assms [of "buffer w"] by (cases "f (buffer w)") (simp_all add: put_def)

lemma console_assert_not_Error: "fst (console_assert c d w) \<noteq> Inl (Error s)"
  by (simp add: console_assert_def)

lemma writers_not_Error:
  "writeUInt8 b v off \<noteq> Inl (Error s)"
  "writeUInt16LE b v off \<noteq> Inl (Error s)"
  "writeUInt32LE b v off \<noteq> Inl (Error s)"
  "write_ascii b t n \<noteq> Inl (Error s)"
  by (simp_all add: write_defs)

lemmas not_Error_intros =
  bind_prog_not_Error put_not_Error console_assert_not_Error writers_not_Error

lemma header_write_not_Error: "fst (TCNetManagementHeader_write h w) \<noteq> Inl (Error s)"
  unfolding TCNetManagementHeader_write_def by (intro not_Error_intros)

lemma OptIn_write_not_Error: "fst (TCNetOptInPacket_write p w) \<noteq> Inl (Error s)"
  unfolding TCNetOptInPacket_write_def by (intro not_Error_intros)

lemma OptOut_write_not_Error: "fst (TCNetOptOutPacket_write p w) \<noteq> Inl (Error s)"
  unfolding TCNetOptOutPacket_write_def by (intro not_Error_intros)

lemma Request_write_not_Error: "fst (TCNetRequestPacket_write p w) \<noteq> Inl (Error s)"
  unfolding TCNetRequestPacket_write_def by (intro not_Error_intros)

lemma Data_write_not_Error: "fst (TCNetDataPacket_write p w) \<noteq> Inl (Error s)"
  unfolding TCNetDataPacket_write_def by (intro not_Error_intros)

lemmas not_supported_defs =
  TCNetStatusPacket_write_def TCNetTimePacket_write_def TCNetDataPacketMetrics_write_def
  TCNetDataPacketMetadata_write_def TCNetDataPacketMixerData_write_def
  TCNetTimeSyncPacket_write_def TCNetErrorNotification_write_def TCNetControlPacket_write_def
  TCNetKeyboardDataPacket_write_def TCNetDataFilePacket_write_def
  TCNetApplicationData_write_def not_supported_def throw_def

text \<open>
  C10. \<^verbatim>\<open>write\<close> of a Status, Time, TimeSync, Error, Metrics, Metadata, MixerData, Control,
  Text, Keyboard, File or ApplicationData packet throws the error \<^verbatim>\<open>"not supported!"\<close> and
  leaves the buffer (and the console) as they were; \<^verbatim>\<open>write\<close> of the management header and
  of the OptIn, OptOut, Request and base Data packets (which BeatGrid, Cue and Waveform
  packets inherit) never throws that error.
\<close>

theorem write_not_supported:
  "(constructor_name p \<in> set [''TCNetStatusPacket'', ''TCNetTimePacket'', ''TCNetTimeSyncPacket'',
        ''TCNetErrorNotification'', ''TCNetDataPacketMetrics'', ''TCNetDataPacketMetadata'',
        ''TCNetDataPacketMixerData'', ''TCNetControlPacket'', ''TCNetTextDataPacket'',
        ''TCNetKeyboardDataPacket'', ''TCNetDataFilePacket'', ''TCNetApplicationData'']
      \<longrightarrow> packet_write p w = (Inl (Error ''not supported!''), w))
   \<and> (constructor_name p \<in> set [''TCNetOptInPacket'', ''TCNetOptOutPacket'', ''TCNetRequestPacket'',
        ''TCNetDataPacket'', ''TCNetDataPacketBeatGridData'', ''TCNetDataPacketCueData'',
        ''TCNetDataPacketWaveFormData'']
      \<longrightarrow> fst (packet_write p w) \<noteq> Inl (Error ''not supported!''))
   \<and> fst (TCNetManagementHeader_write h w) \<noteq> Inl (Error ''not supported!'')"
  by (cases p)
    (simp_all add: not_supported_defs header_write_not_Error OptIn_write_not_Error
       OptOut_write_not_Error Request_write_not_Error Data_write_not_Error)

theorem write_not_supported_witness:
  "constructor_name (TimeSyncPacket
       \<lparr>TCNetTimeSyncPacket.step = 0, nodeListenerSupport = 0, remoteTimestamp = 0\<rparr>)
     \<in> set [''TCNetStatusPacket'', ''TCNetTimePacket'', ''TCNetTimeSyncPacket'',
        ''TCNetErrorNotification'', ''TCNetDataPacketMetrics'', ''TCNetDataPacketMetadata'',
        ''TCNetDataPacketMixerData'', ''TCNetControlPacket'', ''TCNetTextDataPacket'',
        ''TCNetKeyboardDataPacket'', ''TCNetDataFilePacket'', ''TCNetApplicationData'']
   \<and> packet_write (TimeSyncPacket
         \<lparr>TCNetTimeSyncPacket.step = 0, nodeListenerSupport = 0, remoteTimestamp = 0\<rparr>)
        \<lparr>buffer = replicate 32 7, console = []\<rparr>
      = (Inl (Error ''not supported!''), \<lparr>buffer = replicate 32 7, console = []\<rparr>)
   \<and> constructor_name (RequestPacket \<lparr>TCNetRequestPacket.dataType = 4, TCNetRequestPacket.layer = 2\<rparr>)
     \<in> set [''TCNetOptInPacket'', ''TCNetOptOutPacket'', ''TCNetRequestPacket'',
        ''TCNetDataPacket'', ''TCNetDataPacketBeatGridData'', ''TCNetDataPacketCueData'',
        ''TCNetDataPacketWaveFormData'']
   \<and> fst (packet_write (RequestPacket \<lparr>TCNetRequestPacket.dataType = 4, TCNetRequestPacket.layer = 2\<rparr>)
        \<lparr>buffer = replicate 26 0, console = []\<rparr>) \<noteq> Inl (Error ''not supported!'')"
  using write_not_supported
    [of "TimeSyncPacket \<lparr>TCNetTimeSyncPacket.step = 0, nodeListenerSupport = 0, remoteTimestamp = 0\<rparr>"
        "\<lparr>buffer = replicate 32 7, console = []\<rparr>"]
    write_not_supported
    [of "RequestPacket \<lparr>TCNetRequestPacket.dataType = 4, TCNetRequestPacket.layer = 2\<rparr>"
        "\<lparr>buffer = replicate 26 0, console = []\<rparr>"]
  by simp

end
